theory Spec2Isabelle
  imports Complex_Main
begin

section \<open>WellnessHub backend: values, stores and the environment\<close>

text \<open>
  The server keeps four in-memory arrays and answers each HTTP request from them.
  A handler is modelled as a function from the environment of the request, the stores and
  the parsed JSON body to the new stores and the response. Requests are handled one at a
  time: the interleaving of two handlers at an \<^verbatim>\<open>await\<close> is outside this model.

  A string is a list of code units below 256 (Latin-1). A field of a request body is any
  value that \<^verbatim>\<open>JSON.parse\<close> yields (null, a boolean, a number, a string, an array, an
  object), or is absent.
\<close>

datatype jsval =
    JUndefined
  | JNull
  | JBool bool
  | JNum real
  | JStr string
  | JArr "jsval list"
  | JObj "(string \<times> jsval) list"

text \<open>JavaScript truthiness: \<^verbatim>\<open>undefined\<close>, \<^verbatim>\<open>null\<close>, \<^verbatim>\<open>false\<close>,
  zero and the empty string are falsy; every array and every object is truthy.\<close>

fun truthy :: "jsval \<Rightarrow> bool" where
  "truthy JUndefined = False"
| "truthy JNull = False"
| "truthy (JBool b) = b"
| "truthy (JNum n) = (n \<noteq> 0)"
| "truthy (JStr s) = (s \<noteq> [])"
| "truthy (JArr xs) = True"
| "truthy (JObj kvs) = True"

text \<open>A parsed object is a list of keys with their values, each key once. Reading a
  property, as in \<^verbatim>\<open>const { email } = req.body\<close>, gives \<^verbatim>\<open>undefined\<close> when the
  object has no such key.\<close>

type_synonym req_body = "(string \<times> jsval) list"

definition field :: "req_body \<Rightarrow> string \<Rightarrow> jsval" where
  "field b k = (case map_of b k of None \<Rightarrow> JUndefined | Some v \<Rightarrow> v)"

datatype js_error = TypeError | RejectedError

subsection \<open>The environment of a request\<close>

text \<open>
  What a handler reads from outside the stores: the clock (\<^verbatim>\<open>Date.now()\<close> for the id,
  \<^verbatim>\<open>new Date()\<close> for the timestamp, both in milliseconds), the mail transport
  (\<^verbatim>\<open>transporter\<close> is \<^verbatim>\<open>null\<close> without mail credentials; with them,
  \<^verbatim>\<open>sendMail\<close> resolves or rejects for the message of this request), and the
  libraries bcryptjs and jsonwebtoken, taken as parameters. \<^verbatim>\<open>bcrypt.hash\<close> and
  \<^verbatim>\<open>bcrypt.compare\<close> are given on strings; bcryptjs rejects any other argument.
  Two conversions of the JavaScript engine are parameters as well: the text of a number
  (\<open>number_text\<close>), and whether the number that a text denotes is at least 6
  (\<open>text_at_least_6\<close>; false when the text denotes no number).
\<close>

datatype send_result = Resolved | Rejected

datatype jwt_error = Malformed | BadSignature | Expired

record env =
  date_now :: int
  new_date :: int
  transporter :: "send_result option"
  bcrypt_hash :: "string \<Rightarrow> string"
  bcrypt_compare :: "string \<Rightarrow> string \<Rightarrow> bool"
  jwt_sign :: "int \<Rightarrow> string"
  jwt_verify :: "string \<Rightarrow> jwt_error + int"
  number_text :: "real \<Rightarrow> string"
  text_at_least_6 :: "string \<Rightarrow> bool"

subsection \<open>Conversions and method calls on a body field\<close>

text \<open>
  The conversion of a value to a string, as \<^verbatim>\<open>regex.test(v)\<close> and a template literal
  do it. An array is the texts of its elements joined by commas, \<^verbatim>\<open>null\<close> and
  \<^verbatim>\<open>undefined\<close> elements giving the empty text. A parsed object has no callable
  property of its own: with a key \<^verbatim>\<open>toString\<close> of its own the conversion finds
  no method that returns a primitive and throws a TypeError; without one,
  \<^verbatim>\<open>Object.prototype.toString\<close> answers \<^verbatim>\<open>[object Object]\<close>.
\<close>

fun js_ToString :: "env \<Rightarrow> jsval \<Rightarrow> js_error + string"
and js_join :: "env \<Rightarrow> jsval list \<Rightarrow> js_error + string" where
  "js_ToString e JUndefined = Inr ''undefined''"
| "js_ToString e JNull = Inr ''null''"
| "js_ToString e (JBool b) = Inr (if b then ''true'' else ''false'')"
| "js_ToString e (JNum n) = Inr (number_text e n)"
| "js_ToString e (JStr s) = Inr s"
| "js_ToString e (JArr xs) = js_join e xs"
| "js_ToString e (JObj kvs) =
     (if map_of kvs ''toString'' \<noteq> None then Inl TypeError else Inr ''[object Object]'')"
| "js_join e [] = Inr []"
| "js_join e (x # xs) =
     (case (case x of JUndefined \<Rightarrow> Inr [] | JNull \<Rightarrow> Inr [] | _ \<Rightarrow> js_ToString e x) of
        Inl err \<Rightarrow> Inl err
      | Inr t \<Rightarrow>
          (case xs of
             [] \<Rightarrow> Inr t
           | y # ys \<Rightarrow>
               (case js_join e xs of Inl err \<Rightarrow> Inl err | Inr r \<Rightarrow> Inr (t @ '','' @ r))))"

text \<open>\<^verbatim>\<open>String.prototype.toLowerCase\<close> on code units below 256: the letters A to Z and
  the upper-case letters of Latin-1 (C0 to DE without the multiplication sign D7) move up
  by 32, every other unit stays.\<close>

definition lower_char :: "char \<Rightarrow> char" where
  "lower_char c =
     (let n = (of_char c :: nat)
      in if (65 \<le> n \<and> n \<le> 90) \<or> (192 \<le> n \<and> n \<le> 222 \<and> n \<noteq> 215)
         then char_of (n + 32) else c)"

definition toLowerCase :: "string \<Rightarrow> string" where
  "toLowerCase s = map lower_char s"

text \<open>The regular expression class \<^verbatim>\<open>\s\<close>, and the characters that
  \<^verbatim>\<open>trim\<close> removes, below 256: tab, line feed, vertical tab, form feed, carriage
  return, space and the no-break space.\<close>

definition is_space :: "char \<Rightarrow> bool" where
  "is_space c = (let n = (of_char c :: nat) in (9 \<le> n \<and> n \<le> 13) \<or> n = 32 \<or> n = 160)"

definition trim :: "string \<Rightarrow> string" where
  "trim s = rev (dropWhile is_space (rev (dropWhile is_space s)))"

text \<open>A method call on a body field: a string has \<^verbatim>\<open>toLowerCase\<close> and
  \<^verbatim>\<open>trim\<close>. On any other value the property is \<^verbatim>\<open>undefined\<close>, or a parsed
  value that is no function, and the call throws a TypeError, as does any property access
  on \<^verbatim>\<open>null\<close> or \<^verbatim>\<open>undefined\<close>.\<close>

fun js_toLowerCase :: "jsval \<Rightarrow> js_error + string" where
  "js_toLowerCase (JStr s) = Inr (toLowerCase s)"
| "js_toLowerCase _ = Inl TypeError"

fun js_trim :: "jsval \<Rightarrow> js_error + string" where
  "js_trim (JStr s) = Inr (trim s)"
| "js_trim _ = Inl TypeError"

text \<open>The property \<^verbatim>\<open>length\<close>: the number of code units of a string, the number
  of elements of an array, the value under the key \<^verbatim>\<open>length\<close> of an object,
  \<^verbatim>\<open>undefined\<close> on a boolean or a number.\<close>

fun js_length :: "jsval \<Rightarrow> js_error + jsval" where
  "js_length JUndefined = Inl TypeError"
| "js_length JNull = Inl TypeError"
| "js_length (JBool b) = Inr JUndefined"
| "js_length (JNum n) = Inr JUndefined"
| "js_length (JStr s) = Inr (JNum (real (length s)))"
| "js_length (JArr xs) = Inr (JNum (real (length xs)))"
| "js_length (JObj kvs) = Inr (field kvs ''length'')"

text \<open>The comparison \<^verbatim>\<open>v >= 6\<close>: \<^verbatim>\<open>undefined\<close> converts to NaN, \<^verbatim>\<open>null\<close> to 0,
  a boolean to 0 or 1; an array or an object converts to its text first.\<close>

fun js_ge_6 :: "env \<Rightarrow> jsval \<Rightarrow> js_error + bool" where
  "js_ge_6 e JUndefined = Inr False"
| "js_ge_6 e JNull = Inr False"
| "js_ge_6 e (JBool b) = Inr False"
| "js_ge_6 e (JNum n) = Inr (6 \<le> n)"
| "js_ge_6 e (JStr s) = Inr (text_at_least_6 e s)"
| "js_ge_6 e v =
     (case js_ToString e v of Inl err \<Rightarrow> Inl err | Inr t \<Rightarrow> Inr (text_at_least_6 e t))"

subsection \<open>Validation helpers\<close>

text \<open>\<^verbatim>\<open>/^[^\s@]+@[^\s@]+\.[^\s@]+$/\<close>: \<open>email_char\<close> is the class
  \<^verbatim>\<open>[^\s@]\<close>. The first run of the class is greedy and must be followed by the one
  \<^verbatim>\<open>@\<close>; the rest is made of class characters only and has a dot that is neither its
  first nor its last character.\<close>

definition email_char :: "char \<Rightarrow> bool" where
  "email_char c = (\<not> is_space c \<and> c \<noteq> CHR ''@'')"

definition regex_test :: "string \<Rightarrow> bool" where
  "regex_test s =
     (takeWhile email_char s \<noteq> [] \<and>
      (case dropWhile email_char s of
         [] \<Rightarrow> False
       | c # d \<Rightarrow> c = CHR ''@'' \<and> list_all email_char d \<and> CHR ''.'' \<in> set (butlast (tl d))))"

text \<open>\<^verbatim>\<open>validateEmail = (email) => regex.test(email)\<close>: \<^verbatim>\<open>test\<close> converts its
  argument to a string, which can throw.\<close>

definition validateEmail :: "env \<Rightarrow> jsval \<Rightarrow> js_error + bool" where
  "validateEmail e email =
     (case js_ToString e email of Inl err \<Rightarrow> Inl err | Inr t \<Rightarrow> Inr (regex_test t))"

text \<open>\<^verbatim>\<open>validatePassword = (password) => password && password.length >= 6\<close>, read for
  its truthiness.\<close>

definition validatePassword :: "env \<Rightarrow> jsval \<Rightarrow> js_error + bool" where
  "validatePassword e password =
     (if \<not> truthy password then Inr False
      else (case js_length password of Inl err \<Rightarrow> Inl err | Inr l \<Rightarrow> js_ge_6 e l))"

subsection \<open>Stores\<close>

record user =
  u_id :: int
  u_email :: string
  u_password :: string
  u_createdAt :: "int option"

record appointment =
  a_id :: int
  a_firstName :: jsval
  a_lastName :: jsval
  a_email :: string
  a_phone :: jsval
  a_service :: jsval
  a_date :: jsval
  a_time :: jsval
  a_message :: jsval
  a_createdAt :: int

record contact =
  c_id :: int
  c_name :: string
  c_email :: string
  c_message :: string
  c_createdAt :: int

record subscription =
  n_email :: string
  n_subscribedAt :: int

record state =
  users :: "user list"
  appointments :: "appointment list"
  contacts :: "contact list"
  newsletters :: "subscription list"

definition empty_state :: state where
  "empty_state = \<lparr>users = [], appointments = [], contacts = [], newsletters = []\<rparr>"

subsection \<open>Responses\<close>

datatype res_json =
    Error string
  | Message string
  | LoginOk string int string string
  | Stats nat nat nat nat "appointment list" "contact list"

record response =
  status :: nat
  json :: res_json

text \<open>\<^verbatim>\<open>res.status(n).json(b)\<close>, and \<^verbatim>\<open>res.json(b)\<close> which answers 200.\<close>

definition res_status :: "nat \<Rightarrow> res_json \<Rightarrow> response" where
  "res_status n b = \<lparr>status = n, json = b\<rparr>"

definition res_json :: "res_json \<Rightarrow> response" where
  "res_json b = \<lparr>status = 200, json = b\<rparr>"

section \<open>Auth middleware\<close>

text \<open>\<^verbatim>\<open>str.split(' ')\<close>: the pieces between single spaces, empty pieces included.\<close>

fun split_sp :: "string \<Rightarrow> string list" where
  "split_sp [] = [[]]"
| "split_sp (c # cs) =
     (if c = CHR '' '' then [] # split_sp cs
      else (case split_sp cs of p # ps \<Rightarrow> (c # p) # ps | [] \<Rightarrow> [[c]]))"

text \<open>\<^verbatim>\<open>const token = authHeader && authHeader.split(' ')[1]\<close>: the header is absent
  (\<open>None\<close>) or a string; the second piece is \<^verbatim>\<open>undefined\<close> when there is none.
  The result is the token when it is truthy.\<close>

definition header_token :: "string option \<Rightarrow> string option" where
  "header_token authHeader =
     (case authHeader of
        None \<Rightarrow> None
      | Some h \<Rightarrow>
          if h = [] then None
          else (let parts = split_sp h
                in if 1 < length parts \<and> parts ! 1 \<noteq> [] then Some (parts ! 1) else None))"

text \<open>The middleware ends the request with a response (\<open>Inl\<close>) or calls
  \<^verbatim>\<open>next()\<close> with the decoded payload (\<open>Inr\<close>).\<close>

definition authenticateToken :: "env \<Rightarrow> string option \<Rightarrow> response + int" where
  "authenticateToken e authHeader =
     (case header_token authHeader of
        None \<Rightarrow> Inl (res_status 401 (Error ''Access token required''))
      | Some token \<Rightarrow>
          (case jwt_verify e token of
             Inl err \<Rightarrow> Inl (res_status 403 (Error ''Invalid token''))
           | Inr user \<Rightarrow> Inr user))"

section \<open>Auth routes\<close>

text \<open>\<^verbatim>\<open>POST /api/auth/login\<close>. No store is written, so only the response is returned.
  The lower-casing sits inside the callback of \<^verbatim>\<open>users.find\<close>, which an empty
  array never calls. \<^verbatim>\<open>bcrypt.compare\<close> rejects a password that is not a string.
  Any exception is caught by the handler and answered with 500.\<close>

definition login :: "env \<Rightarrow> state \<Rightarrow> req_body \<Rightarrow> response" where
  "login e s b =
     (let email = field b ''email''; password = field b ''password''
      in if \<not> truthy email \<or> \<not> truthy password
           then res_status 400 (Error ''Email and password are required'')
         else (case validateEmail e email of
                 Inl err \<Rightarrow> res_status 500 (Error ''Internal server error'')
               | Inr valid \<Rightarrow>
         if \<not> valid
           then res_status 400 (Error ''Invalid email format'')
         else (case js_toLowerCase email of
                 Inl err \<Rightarrow>
                   if users s = [] then res_status 401 (Error ''Invalid credentials'')
                   else res_status 500 (Error ''Internal server error'')
               | Inr lowered \<Rightarrow>
                   (case List.find (\<lambda>u. u_email u = lowered) (users s) of
                      None \<Rightarrow> res_status 401 (Error ''Invalid credentials'')
                    | Some user \<Rightarrow>
                        (case password of
                           JStr p \<Rightarrow>
                             if \<not> bcrypt_compare e p (u_password user)
                               then res_status 401 (Error ''Invalid credentials'')
                             else res_json (LoginOk (jwt_sign e (u_id user)) (u_id user)
                                                    (u_email user) ''Login successful'')
                         | _ \<Rightarrow> res_status 500 (Error ''Internal server error''))))))"

text \<open>\<^verbatim>\<open>POST /api/auth/register\<close>. \<^verbatim>\<open>bcrypt.hash\<close> rejects a password that is
  not a string.\<close>

definition register :: "env \<Rightarrow> state \<Rightarrow> req_body \<Rightarrow> state \<times> response" where
  "register e s b =
     (let email = field b ''email''; password = field b ''password''
      in if \<not> truthy email \<or> \<not> truthy password
           then (s, res_status 400 (Error ''Email and password are required''))
         else (case validateEmail e email of
                 Inl err \<Rightarrow> (s, res_status 500 (Error ''Internal server error''))
               | Inr valid \<Rightarrow>
         if \<not> valid
           then (s, res_status 400 (Error ''Invalid email format''))
         else (case validatePassword e password of
                 Inl err \<Rightarrow> (s, res_status 500 (Error ''Internal server error''))
               | Inr strong \<Rightarrow>
         if \<not> strong
           then (s, res_status 400 (Error ''Password must be at least 6 characters''))
         else (case js_toLowerCase email of
                 Inl err \<Rightarrow> (s, res_status 500 (Error ''Internal server error''))
               | Inr normalizedEmail \<Rightarrow>
                   if List.find (\<lambda>u. u_email u = normalizedEmail) (users s) \<noteq> None
                     then (s, res_status 400 (Error ''User already exists''))
                   else (case password of
                           JStr p \<Rightarrow>
                             (s\<lparr>users := users s @
                                  [\<lparr>u_id = date_now e, u_email = normalizedEmail,
                                    u_password = bcrypt_hash e p,
                                    u_createdAt = Some (new_date e)\<rparr>]\<rparr>,
                              res_json (Message ''User registered successfully''))
                         | _ \<Rightarrow> (s, res_status 500 (Error ''Internal server error'')))))))"

text \<open>\<^verbatim>\<open>createTestUser\<close>, called once when the process starts. Its check and its
  push are one step here; in the source the password hash is awaited between them.\<close>

definition testEmail :: string where
  "testEmail = ''test@wellnesshub.com''"

definition createTestUser :: "env \<Rightarrow> state \<Rightarrow> state" where
  "createTestUser e s =
     (if List.find (\<lambda>u. u_email u = testEmail) (users s) = None
      then s\<lparr>users := users s @
               [\<lparr>u_id = 1, u_email = testEmail,
                 u_password = bcrypt_hash e ''password123'', u_createdAt = None\<rparr>]\<rparr>
      else s)"

section \<open>Appointment, contact and newsletter routes\<close>

text \<open>The interpolations of a template literal, left to right: each value is converted
  to a string, and the first conversion that throws ends the evaluation.\<close>

fun js_interpolate :: "env \<Rightarrow> jsval list \<Rightarrow> js_error + string list" where
  "js_interpolate e [] = Inr []"
| "js_interpolate e (v # vs) =
     (case js_ToString e v of
        Inl err \<Rightarrow> Inl err
      | Inr t \<Rightarrow> (case js_interpolate e vs of Inl err \<Rightarrow> Inl err | Inr ts \<Rightarrow> Inr (t # ts)))"

text \<open>The confirmation mail of an appointment, \<^verbatim>\<open>emailContent\<close>, given by the texts
  it interpolates: first name, last name, service, date, time, phone, and the message when
  it is truthy. The log line at the end of the handler interpolates some of the same
  values again, so it throws only where this text already has.\<close>

definition appointmentEmail :: "env \<Rightarrow> req_body \<Rightarrow> js_error + string list" where
  "appointmentEmail e b =
     js_interpolate e
       ([field b ''firstName'', field b ''lastName'', field b ''service'', field b ''date'',
         field b ''time'', field b ''phone'']
        @ (if truthy (field b ''message'') then [field b ''message''] else []))"

text \<open>The block \<^verbatim>\<open>if (transporter) { await transporter.sendMail(...) } else
  { console.log(...) }\<close>: it throws exactly when a transport is configured and
  \<^verbatim>\<open>sendMail\<close> rejects.\<close>

definition notify :: "env \<Rightarrow> js_error + unit" where
  "notify e =
     (case transporter e of
        None \<Rightarrow> Inr ()
      | Some Resolved \<Rightarrow> Inr ()
      | Some Rejected \<Rightarrow> Inl RejectedError)"

text \<open>\<^verbatim>\<open>POST /api/appointments\<close>: the record is pushed before the mail text is built
  and the mail is sent, and the \<^verbatim>\<open>catch\<close> around all of it answers 500.\<close>

definition bookAppointment :: "env \<Rightarrow> state \<Rightarrow> req_body \<Rightarrow> state \<times> response" where
  "bookAppointment e s b =
     (let firstName = field b ''firstName''; lastName = field b ''lastName'';
          email = field b ''email''; phone = field b ''phone'';
          service = field b ''service''; date = field b ''date'';
          time = field b ''time''; message = field b ''message''
      in if \<not> truthy firstName \<or> \<not> truthy lastName \<or> \<not> truthy email \<or> \<not> truthy phone
            \<or> \<not> truthy service \<or> \<not> truthy date \<or> \<not> truthy time
           then (s, res_status 400 (Error ''All required fields must be filled''))
         else (case validateEmail e email of
                 Inl err \<Rightarrow> (s, res_status 500 (Error ''Failed to book appointment''))
               | Inr valid \<Rightarrow>
         if \<not> valid
           then (s, res_status 400 (Error ''Invalid email format''))
         else (case js_toLowerCase email of
                 Inl err \<Rightarrow> (s, res_status 500 (Error ''Failed to book appointment''))
               | Inr lowered \<Rightarrow>
                   (let appointment =
                          \<lparr>a_id = date_now e, a_firstName = firstName, a_lastName = lastName,
                           a_email = lowered, a_phone = phone, a_service = service,
                           a_date = date, a_time = time,
                           a_message = (if truthy message then message else JStr []),
                           a_createdAt = new_date e\<rparr>;
                        s' = s\<lparr>appointments := appointments s @ [appointment]\<rparr>
                    in (case appointmentEmail e b of
                          Inl err \<Rightarrow> (s', res_status 500 (Error ''Failed to book appointment''))
                        | Inr emailContent \<Rightarrow>
                       (case notify e of
                          Inl err \<Rightarrow> (s', res_status 500 (Error ''Failed to book appointment''))
                        | Inr u \<Rightarrow>
                            (s', res_json (Message
                               ''Appointment booked successfully! Check your email for confirmation.''))))))))"

text \<open>\<^verbatim>\<open>POST /api/contact\<close>: the fields of the record are evaluated in the order
  name, email, message; a TypeError in any of them leaves the store as it was. The mail
  text interpolates the strings of the record only.\<close>

definition sendContact :: "env \<Rightarrow> state \<Rightarrow> req_body \<Rightarrow> state \<times> response" where
  "sendContact e s b =
     (let name = field b ''name''; email = field b ''email''; message = field b ''message''
      in if \<not> truthy name \<or> \<not> truthy email \<or> \<not> truthy message
           then (s, res_status 400 (Error ''All fields are required''))
         else (case validateEmail e email of
                 Inl err \<Rightarrow> (s, res_status 500 (Error ''Failed to send message''))
               | Inr valid \<Rightarrow>
         if \<not> valid
           then (s, res_status 400 (Error ''Invalid email format''))
         else (case js_trim name of
                 Inl err \<Rightarrow> (s, res_status 500 (Error ''Failed to send message''))
               | Inr trimmedName \<Rightarrow>
             (case js_toLowerCase email of
                 Inl err \<Rightarrow> (s, res_status 500 (Error ''Failed to send message''))
               | Inr lowered \<Rightarrow>
             (case js_trim message of
                 Inl err \<Rightarrow> (s, res_status 500 (Error ''Failed to send message''))
               | Inr trimmedMessage \<Rightarrow>
                   (let contact =
                          \<lparr>c_id = date_now e, c_name = trimmedName, c_email = lowered,
                           c_message = trimmedMessage, c_createdAt = new_date e\<rparr>;
                        s' = s\<lparr>contacts := contacts s @ [contact]\<rparr>
                    in (case notify e of
                          Inl err \<Rightarrow> (s', res_status 500 (Error ''Failed to send message''))
                        | Inr u \<Rightarrow>
                            (s', res_json (Message
                               ''Message sent successfully! We'll get back to you soon.'')))))))))"

text \<open>\<^verbatim>\<open>POST /api/newsletter\<close>.\<close>

definition subscribeNewsletter :: "env \<Rightarrow> state \<Rightarrow> req_body \<Rightarrow> state \<times> response" where
  "subscribeNewsletter e s b =
     (let email = field b ''email''
      in if \<not> truthy email
           then (s, res_status 400 (Error ''Email is required''))
         else (case validateEmail e email of
                 Inl err \<Rightarrow> (s, res_status 500 (Error ''Subscription failed''))
               | Inr valid \<Rightarrow>
         if \<not> valid
           then (s, res_status 400 (Error ''Invalid email format''))
         else (case js_toLowerCase email of
                 Inl err \<Rightarrow> (s, res_status 500 (Error ''Subscription failed''))
               | Inr normalizedEmail \<Rightarrow>
                   if List.find (\<lambda>n. n_email n = normalizedEmail) (newsletters s) \<noteq> None
                     then (s, res_status 400 (Error ''Email already subscribed''))
                   else (s\<lparr>newsletters := newsletters s @
                              [\<lparr>n_email = normalizedEmail, n_subscribedAt = new_date e\<rparr>]\<rparr>,
                         res_json (Message ''Successfully subscribed to our newsletter!'')))))"

section \<open>Admin route\<close>

text \<open>\<^verbatim>\<open>arr.slice(start)\<close>: a negative start counts from the end and is clamped at
  0, a positive one is clamped at the length.\<close>

definition slice_from :: "int \<Rightarrow> 'a list \<Rightarrow> 'a list" where
  "slice_from start xs =
     (let len = int (length xs);
          k = (if start < 0 then max (len + start) 0 else min start len)
      in drop (nat k) xs)"

text \<open>\<^verbatim>\<open>GET /api/admin/stats\<close>, behind \<^verbatim>\<open>authenticateToken\<close>.\<close>

definition adminStats :: "env \<Rightarrow> state \<Rightarrow> string option \<Rightarrow> state \<times> response" where
  "adminStats e s authHeader =
     (case authenticateToken e authHeader of
        Inl r \<Rightarrow> (s, r)
      | Inr user \<Rightarrow>
          (s, res_json (Stats (length (users s)) (length (appointments s))
                              (length (contacts s)) (length (newsletters s))
                              (slice_from (- 5) (appointments s))
                              (slice_from (- 5) (contacts s)))))"

section \<open>Runs of the server\<close>

datatype request =
    Login req_body
  | Register req_body
  | Appointment req_body
  | Contact req_body
  | Newsletter req_body
  | AdminStats "string option"

fun handle :: "env \<Rightarrow> state \<Rightarrow> request \<Rightarrow> state \<times> response" where
  "handle e s (Login b) = (s, login e s b)"
| "handle e s (Register b) = register e s b"
| "handle e s (Appointment b) = bookAppointment e s b"
| "handle e s (Contact b) = sendContact e s b"
| "handle e s (Newsletter b) = subscribeNewsletter e s b"
| "handle e s (AdminStats h) = adminStats e s h"

text \<open>The states of a process: it starts with empty arrays, the test user is added when
  its password hash is ready, and every request is handled from the state the last one
  left.\<close>

inductive reachable :: "state \<Rightarrow> bool" where
  start: "reachable empty_state"
| seeded: "reachable s \<Longrightarrow> reachable (createTestUser e s)"
| handled: "reachable s \<Longrightarrow> reachable (fst (handle e s r))"

text \<open>A run handles a list of requests, each with its own environment.\<close>

fun run :: "state \<Rightarrow> (env \<times> request) list \<Rightarrow> state" where
  "run s [] = s"
| "run s ((e, r) # rest) = run (fst (handle e s r)) rest"

section \<open>Request predicates and sample data\<close>

definition is_string :: "jsval \<Rightarrow> bool" where
  "is_string v = (case v of JStr x \<Rightarrow> True | _ \<Rightarrow> False)"

text \<open>The two checks of the appointment handler: a request passes them, fails one of
  them, or makes the email test throw.\<close>

definition valid_appointment :: "env \<Rightarrow> req_body \<Rightarrow> bool" where
  "valid_appointment e b =
     (truthy (field b ''firstName'') \<and> truthy (field b ''lastName'') \<and>
      truthy (field b ''email'') \<and> truthy (field b ''phone'') \<and>
      truthy (field b ''service'') \<and> truthy (field b ''date'') \<and>
      truthy (field b ''time'') \<and> validateEmail e (field b ''email'') = Inr True)"


text \<open>The two checks of the contact handler.\<close>

definition valid_contact :: "env \<Rightarrow> req_body \<Rightarrow> bool" where
  "valid_contact e b =
     (truthy (field b ''name'') \<and> truthy (field b ''email'') \<and>
      truthy (field b ''message'') \<and> validateEmail e (field b ''email'') = Inr True)"

text \<open>The requests of a run that add a record: a booking that passes the checks with a
  string as email, a contact message that passes them with strings as name, email and
  message.\<close>

fun books :: "env \<times> request \<Rightarrow> bool" where
  "books (e, Appointment b) = (valid_appointment e b \<and> is_string (field b ''email''))"
| "books (e, r) = False"

fun writes :: "env \<times> request \<Rightarrow> bool" where
  "writes (e, Contact b) =
     (valid_contact e b \<and> is_string (field b ''name'') \<and> is_string (field b ''email'')
      \<and> is_string (field b ''message''))"
| "writes (e, r) = False"

text \<open>Two bodies that differ at most in the letter case of a string email.\<close>

definition same_but_email_case :: "req_body \<Rightarrow> req_body \<Rightarrow> bool" where
  "same_but_email_case b b' =
     ((\<forall>k. k \<noteq> ''email'' \<longrightarrow> field b k = field b' k) \<and>
      (\<exists>x y. field b ''email'' = JStr x \<and> field b' ''email'' = JStr y
             \<and> toLowerCase x = toLowerCase y))"

text \<open>Stored email fields that lower-casing leaves as they are.\<close>

definition emails_lowercase :: "state \<Rightarrow> bool" where
  "emails_lowercase s =
     (list_all (\<lambda>u. toLowerCase (u_email u) = u_email u) (users s) \<and>
      list_all (\<lambda>a. toLowerCase (a_email a) = a_email a) (appointments s) \<and>
      list_all (\<lambda>c. toLowerCase (c_email c) = c_email c) (contacts s) \<and>
      list_all (\<lambda>n. toLowerCase (n_email n) = n_email n) (newsletters s))"

text \<open>A sample environment and sample requests, on which the handlers are evaluated
  below. The stand-ins for the libraries and the engine: a hash that tags the password, a
  verifier that knows one good token and three bad ones, and a number text and a number
  test that are right on the numbers of the samples (the integers from 0 to 9, and
  123456).\<close>

definition sample_hash :: "string \<Rightarrow> string" where
  "sample_hash p = ''$2a$10$'' @ p"

definition sample_compare :: "string \<Rightarrow> string \<Rightarrow> bool" where
  "sample_compare p h = (h = sample_hash p)"

definition sample_sign :: "int \<Rightarrow> string" where
  "sample_sign uid = ''signed''"

definition sample_verify :: "string \<Rightarrow> jwt_error + int" where
  "sample_verify t =
     (if t = ''signed'' then Inr 1
      else if t = ''old'' then Inl Expired
      else if t = ''forged'' then Inl BadSignature
      else Inl Malformed)"

definition sample_number_text :: "real \<Rightarrow> string" where
  "sample_number_text n =
     (if n = 0 then ''0'' else if n = 1 then ''1'' else if n = 2 then ''2''
      else if n = 3 then ''3'' else if n = 4 then ''4'' else if n = 5 then ''5''
      else if n = 6 then ''6'' else if n = 7 then ''7'' else if n = 8 then ''8''
      else if n = 9 then ''9'' else ''123456'')"

definition sample_at_least_6 :: "string \<Rightarrow> bool" where
  "sample_at_least_6 t = (t \<in> {''6'', ''7'', ''8'', ''9'', ''123456''})"

definition sample_env :: env where
  "sample_env =
     \<lparr>date_now = 1700000000000, new_date = 1700000000000, transporter = None,
      bcrypt_hash = sample_hash, bcrypt_compare = sample_compare,
      jwt_sign = sample_sign, jwt_verify = sample_verify,
      number_text = sample_number_text, text_at_least_6 = sample_at_least_6\<rparr>"

definition later_env :: env where
  "later_env = sample_env\<lparr>date_now := 1700000000001, new_date := 1700000000002\<rparr>"

definition booking_ann :: req_body where
  "booking_ann =
     [(''firstName'', JStr ''Ann''), (''lastName'', JStr ''Lee''),
      (''email'', JStr ''Ann@Example.com''), (''phone'', JStr ''555''),
      (''service'', JStr ''yoga''), (''date'', JStr ''2024-01-02''),
      (''time'', JStr ''10:00'')]"

definition booking_bad_email :: req_body where
  "booking_bad_email =
     [(''firstName'', JStr ''Ann''), (''lastName'', JStr ''Lee''),
      (''email'', JStr ''not-an-email''), (''phone'', JStr ''555''),
      (''service'', JStr ''yoga''), (''date'', JStr ''2024-01-02''),
      (''time'', JStr ''10:00'')]"


definition booking_zero_message :: req_body where
  "booking_zero_message =
     [(''firstName'', JStr ''Ann''), (''lastName'', JStr ''Lee''),
      (''email'', JStr ''Ann@Example.com''), (''phone'', JStr ''555''),
      (''service'', JStr ''yoga''), (''date'', JStr ''2024-01-02''),
      (''time'', JStr ''10:00''), (''message'', JNum 0)]"

definition booking_array_email :: req_body where
  "booking_array_email =
     [(''firstName'', JStr ''Ann''), (''lastName'', JStr ''Lee''),
      (''email'', JArr [JStr ''Ann@Example.com'']), (''phone'', JStr ''555''),
      (''service'', JStr ''yoga''), (''date'', JStr ''2024-01-02''),
      (''time'', JStr ''10:00'')]"

definition booking_object_name :: req_body where
  "booking_object_name =
     [(''firstName'', JObj [(''toString'', JNum 1)]), (''lastName'', JStr ''Lee''),
      (''email'', JStr ''Ann@Example.com''), (''phone'', JStr ''555''),
      (''service'', JStr ''yoga''), (''date'', JStr ''2024-01-02''),
      (''time'', JStr ''10:00'')]"

definition contact_number_name :: req_body where
  "contact_number_name =
     [(''name'', JNum 7), (''email'', JStr ''Ann@Example.com''),
      (''message'', JStr ''hi there'')]"

definition booking_bob :: req_body where
  "booking_bob =
     [(''firstName'', JStr ''Bob''), (''lastName'', JStr ''Ray''),
      (''email'', JStr ''bob@example.com''), (''phone'', JStr ''556''),
      (''service'', JStr ''massage''), (''date'', JStr ''2024-01-03''),
      (''time'', JStr ''11:00''), (''message'', JStr ''hello'')]"

definition contact_ann :: req_body where
  "contact_ann =
     [(''name'', JStr '' Ann ''), (''email'', JStr ''Ann@Example.com''),
      (''message'', JStr ''hi there'')]"

definition signup_ann :: req_body where
  "signup_ann = [(''email'', JStr ''Ann@Example.com''), (''password'', JStr ''secret1'')]"

definition signup_ann_lower :: req_body where
  "signup_ann_lower = [(''email'', JStr ''ann@example.com''), (''password'', JStr ''secret1'')]"

definition login_ann_number :: req_body where
  "login_ann_number = [(''email'', JStr ''Ann@Example.com''), (''password'', JNum 123456)]"

definition login_ann_wrong :: req_body where
  "login_ann_wrong = [(''email'', JStr ''ANN@example.com''), (''password'', JStr ''wrong-pass'')]"

definition news_ann :: req_body where
  "news_ann = [(''email'', JStr ''A@Example.com'')]"

definition news_ann_lower :: req_body where
  "news_ann_lower = [(''email'', JStr ''a@example.com'')]"

definition appt :: "int \<Rightarrow> appointment" where
  "appt n =
     \<lparr>a_id = n, a_firstName = JStr ''Ann'', a_lastName = JStr ''Lee'',
      a_email = ''ann@example.com'', a_phone = JStr ''555'', a_service = JStr ''yoga'',
      a_date = JStr ''2024-01-02'', a_time = JStr ''10:00'', a_message = JStr [],
      a_createdAt = n\<rparr>"

definition busy_state :: state where
  "busy_state =
     \<lparr>users = [], appointments = map appt [1, 2, 3, 4, 5, 6, 7], contacts = [],
      newsletters = []\<rparr>"

definition ann_state :: state where
  "ann_state =
     \<lparr>users = [\<lparr>u_id = 1700000000000, u_email = ''ann@example.com'',
                 u_password = ''$2a$10$secret1'', u_createdAt = Some 1700000000000\<rparr>],
      appointments = [], contacts = [], newsletters = []\<rparr>"

section \<open>Facts about the helpers\<close>

subsection \<open>Lower-casing\<close>

lemma lower_char_idem: "lower_char (lower_char c) = lower_char c"
  by (simp add: lower_char_def Let_def)

lemma toLowerCase_idem: "toLowerCase (toLowerCase s) = toLowerCase s"
  by (simp add: toLowerCase_def lower_char_idem)

lemma of_char_lower:
  "(of_char (lower_char c) :: nat) =
     (if (65 \<le> (of_char c :: nat) \<and> (of_char c :: nat) \<le> 90)
         \<or> (192 \<le> (of_char c :: nat) \<and> (of_char c :: nat) \<le> 222 \<and> (of_char c :: nat) \<noteq> 215)
      then of_char c + 32 else of_char c)"
  by (simp add: lower_char_def Let_def)

lemma char_eq_code: "(c = d) = ((of_char c :: nat) = of_char d)"
  by (simp add: of_char_eq_iff)

lemma lower_char_eq_at: "(lower_char c = CHR ''@'') = (c = CHR ''@'')"
  by (simp add: char_eq_code [of _ "CHR ''@''"] of_char_lower)

lemma lower_char_eq_dot: "(lower_char c = CHR ''.'') = (c = CHR ''.'')"
  by (simp add: char_eq_code [of _ "CHR ''.''"] of_char_lower)

lemma is_space_lower: "is_space (lower_char c) = is_space c"
  by (auto simp add: lower_char_def is_space_def Let_def)

lemma email_char_lower: "email_char (lower_char c) = email_char c"
  by (simp add: email_char_def is_space_lower lower_char_eq_at)

subsection \<open>The email pattern\<close>

text \<open>The test accepts exactly the strings the pattern describes: three non-empty runs
  of the class, the first two joined by an at sign and the last two by a dot.\<close>

lemma regex_test_iff:
  "regex_test s \<longleftrightarrow>
     (\<exists>a b c. s = a @ ''@'' @ b @ ''.'' @ c \<and> a \<noteq> [] \<and> b \<noteq> [] \<and> c \<noteq> []
        \<and> list_all email_char a \<and> list_all email_char b \<and> list_all email_char c)"
  (is "?L = ?R")
proof
  assume L: ?L
  let ?a = "takeWhile email_char s"
  from L obtain d where d: "dropWhile email_char s = CHR ''@'' # d" "list_all email_char d"
      "CHR ''.'' \<in> set (butlast (tl d))" and a: "?a \<noteq> []"
    by (auto simp add: regex_test_def split: list.splits)
  from d(3) obtain y z where yz: "butlast (tl d) = y @ CHR ''.'' # z"
    by (auto simp add: in_set_conv_decomp)
  then have "tl d \<noteq> []" by auto
  then have td: "tl d = butlast (tl d) @ [last (tl d)]" by simp
  have "d \<noteq> []" using \<open>tl d \<noteq> []\<close> by auto
  then have dd: "d = hd d # tl d" by simp
  have deq: "d = (hd d # y) @ ''.'' @ (z @ [last (tl d)])"
    using dd td yz by (metis append_Cons append_Nil append_assoc)
  have "s = ?a @ ''@'' @ d" using d(1) takeWhile_dropWhile_id [of email_char s] by simp
  then have "s = ?a @ ''@'' @ (hd d # y) @ ''.'' @ (z @ [last (tl d)])" using deq by simp
  moreover have "list_all email_char ?a" by (simp add: list_all_iff) (meson set_takeWhileD)
  moreover have "list_all email_char (hd d # y)" "list_all email_char (z @ [last (tl d)])"
    using d(2) deq by (metis list_all_append)+
  ultimately show ?R using a by blast
next
  assume ?R
  then obtain a b c where s: "s = a @ ''@'' @ b @ ''.'' @ c" and ne: "a \<noteq> []" "b \<noteq> []" "c \<noteq> []"
    and ok: "list_all email_char a" "list_all email_char b" "list_all email_char c"
    by blast
  have nat: "\<not> email_char CHR ''@''" by (simp add: email_char_def)
  have dotok: "email_char CHR ''.''" by (simp add: email_char_def is_space_def)
  have tw: "takeWhile email_char s = a" using s ok(1) nat
    by (simp add: list_all_iff takeWhile_append2)
  have dw: "dropWhile email_char s = ''@'' @ b @ ''.'' @ c" using s ok(1) nat
    by (simp add: list_all_iff dropWhile_append2)
  obtain b0 b' where b: "b = b0 # b'" using ne(2) by (cases b) auto
  obtain c' cl where c: "c = c' @ [cl]" using ne(3) by (cases c rule: rev_cases) auto
  have "butlast (tl (b @ ''.'' @ c)) = b' @ ''.'' @ c'"
    using b c by (simp add: butlast_append)
  then have "CHR ''.'' \<in> set (butlast (tl (b @ ''.'' @ c)))" by simp
  moreover have "list_all email_char (b @ ''.'' @ c)" using ok dotok by simp
  ultimately show ?L using tw dw ne(1) by (simp add: regex_test_def)
qed

text \<open>Lower-casing moves no character into or out of the class, nor onto the at sign or
  the dot, so an address and its lower-cased form pass or fail together.\<close>

lemma takeWhile_lower:
  "takeWhile email_char (map lower_char s) = map lower_char (takeWhile email_char s)"
  by (induction s) (simp_all add: email_char_lower)

lemma dropWhile_lower:
  "dropWhile email_char (map lower_char s) = map lower_char (dropWhile email_char s)"
  by (induction s) (simp_all add: email_char_lower)

lemma dot_in_lower: "(CHR ''.'' \<in> set (map lower_char d)) = (CHR ''.'' \<in> set d)"
proof -
  have "(CHR ''.'' = lower_char c) = (CHR ''.'' = c)" for c
    using lower_char_eq_dot [of c] by auto
  then show ?thesis by (induction d) simp_all
qed

lemma regex_test_lower: "regex_test (toLowerCase s) = regex_test s"
proof (cases "dropWhile email_char s")
  case Nil
  then have "dropWhile email_char (map lower_char s) = []"
    by (simp only: dropWhile_lower list.map)
  with Nil show ?thesis
    by (simp only: regex_test_def toLowerCase_def list.case simp_thms)
next
  case (Cons c d)
  have "(CHR ''.'' \<in> set (butlast (tl (map lower_char d)))) = (CHR ''.'' \<in> set (butlast (tl d)))"
    using dot_in_lower [of "butlast (tl d)"] by (simp add: map_butlast map_tl)
  moreover have "list_all email_char (map lower_char d) = list_all email_char d"
    by (simp add: list_all_iff email_char_lower)
  ultimately show ?thesis using Cons
    by (simp add: regex_test_def toLowerCase_def takeWhile_lower dropWhile_lower lower_char_eq_at)
qed

lemma lower_eq_facts:
  assumes "toLowerCase x = toLowerCase y"
  shows "(x = []) = (y = [])" and "regex_test x = regex_test y"
proof -
  from assms have "(toLowerCase x = []) = (toLowerCase y = [])" by simp
  then show "(x = []) = (y = [])" by (simp add: toLowerCase_def)
  show "regex_test x = regex_test y"
    using assms regex_test_lower [of x] regex_test_lower [of y] by simp
qed

subsection \<open>Strings as body fields\<close>

lemma validateEmail_JStr: "validateEmail e (JStr x) = Inr (regex_test x)"
  by (simp add: validateEmail_def)

lemma is_string_JStr: "is_string v \<Longrightarrow> \<exists>x. v = JStr x"
  by (cases v) (simp_all add: is_string_def)

lemma regex_test_nonempty: "regex_test x \<Longrightarrow> x \<noteq> []"
  by (auto simp add: regex_test_def)

lemma validatePassword_JStr: "validatePassword e (JStr p) = Inr (p \<noteq> [] \<and> 6 \<le> length p)"
  by (auto simp add: validatePassword_def)

lemma js_interpolate_strings:
  "list_all is_string vs \<Longrightarrow> \<exists>ts. js_interpolate e vs = Inr ts"
proof (induction vs)
  case Nil
  show ?case by simp
next
  case (Cons v vs)
  from Cons.prems obtain x where "v = JStr x"
    using is_string_JStr [of v] by auto
  moreover from Cons obtain ts where "js_interpolate e vs = Inr ts" by auto
  ultimately show ?case by simp
qed

subsection \<open>The pieces of a header\<close>

lemma split_sp_no_space: "CHR '' '' \<notin> set h \<Longrightarrow> split_sp h = [h]"
  by (induction h) auto

lemma split_sp_at_space:
  "CHR '' '' \<notin> set a \<Longrightarrow> split_sp (a @ CHR '' '' # r) = a # split_sp r"
  by (induction a) auto

lemma split_sp_first:
  assumes "CHR '' '' \<notin> set t" and "r = [] \<or> (\<exists>r'. r = CHR '' '' # r')"
  shows "\<exists>ps. split_sp (t @ r) = t # ps"
  using assms by (auto simp add: split_sp_no_space split_sp_at_space)

lemma header_token_None: "header_token None = None"
  by (simp add: header_token_def)

lemma header_token_no_space:
  "CHR '' '' \<notin> set h \<Longrightarrow> header_token (Some h) = None"
  by (simp add: header_token_def split_sp_no_space)

lemma header_token_second:
  assumes "CHR '' '' \<notin> set a" and "CHR '' '' \<notin> set t"
      and "r = [] \<or> (\<exists>r'. r = CHR '' '' # r')"
  shows "header_token (Some (a @ CHR '' '' # t @ r)) = (if t = [] then None else Some t)"
proof -
  obtain ps where "split_sp (t @ r) = t # ps"
    using split_sp_first [OF assms(2,3)] by blast
  then have "split_sp (a @ CHR '' '' # t @ r) = a # t # ps"
    using assms(1) by (simp add: split_sp_at_space)
  then show ?thesis by (simp add: header_token_def)
qed

subsection \<open>What a handler does with a request that passed its checks\<close>

lemma bookAppointment_stored:
  assumes "valid_appointment e b" and "field b ''email'' = JStr x"
  shows "bookAppointment e s b =
     (s\<lparr>appointments := appointments s @
          [\<lparr>a_id = date_now e, a_firstName = field b ''firstName'',
            a_lastName = field b ''lastName'', a_email = toLowerCase x,
            a_phone = field b ''phone'', a_service = field b ''service'',
            a_date = field b ''date'', a_time = field b ''time'',
            a_message = (if truthy (field b ''message'') then field b ''message'' else JStr []),
            a_createdAt = new_date e\<rparr>]\<rparr>,
      (case appointmentEmail e b of
         Inl err \<Rightarrow> res_status 500 (Error ''Failed to book appointment'')
       | Inr t \<Rightarrow>
           if transporter e = Some Rejected
           then res_status 500 (Error ''Failed to book appointment'')
           else res_json (Message
                  ''Appointment booked successfully! Check your email for confirmation.'')))"
  using assms
  by (simp add: valid_appointment_def bookAppointment_def notify_def Let_def
        split: sum.splits option.splits send_result.splits)

lemma bookAppointment_unstored:
  assumes "\<not> (valid_appointment e b \<and> is_string (field b ''email''))"
  shows "fst (bookAppointment e s b) = s"
proof (cases "field b ''email''")
  case (JStr x)
  with assms show ?thesis
    by (auto simp add: valid_appointment_def bookAppointment_def is_string_def Let_def
          split: sum.splits)
qed (auto simp add: bookAppointment_def Let_def split: sum.splits)

lemma sendContact_stored:
  assumes "valid_contact e b" and "field b ''name'' = JStr n" and "field b ''email'' = JStr x"
      and "field b ''message'' = JStr m"
  shows "sendContact e s b =
     (s\<lparr>contacts := contacts s @
          [\<lparr>c_id = date_now e, c_name = trim n, c_email = toLowerCase x,
            c_message = trim m, c_createdAt = new_date e\<rparr>]\<rparr>,
      (if transporter e = Some Rejected
       then res_status 500 (Error ''Failed to send message'')
       else res_json (Message ''Message sent successfully! We'll get back to you soon.'')))"
  using assms
  by (simp add: valid_contact_def sendContact_def notify_def Let_def
        split: sum.splits option.splits send_result.splits)

lemma sendContact_unstored:
  assumes "\<not> (valid_contact e b \<and> is_string (field b ''name'') \<and> is_string (field b ''email'')
             \<and> is_string (field b ''message''))"
  shows "fst (sendContact e s b) = s"
proof -
  have t: "js_trim v = Inr t \<Longrightarrow> is_string v" for v t
    by (cases v) (simp_all add: is_string_def)
  have l: "js_toLowerCase v = Inr t \<Longrightarrow> is_string v" for v t
    by (cases v) (simp_all add: is_string_def)
  show ?thesis
    using assms t [of "field b ''name''"] t [of "field b ''message''"] l [of "field b ''email''"]
    by (auto simp add: valid_contact_def sendContact_def Let_def split: sum.splits)
qed

lemma register_string:
  assumes "field b ''email'' = JStr x" and "regex_test x"
      and "field b ''password'' = JStr p" and "6 \<le> length p"
  shows "register e s b =
     (if toLowerCase x \<in> set (map u_email (users s))
      then (s, res_status 400 (Error ''User already exists''))
      else (s\<lparr>users := users s @
                 [\<lparr>u_id = date_now e, u_email = toLowerCase x,
                   u_password = bcrypt_hash e p, u_createdAt = Some (new_date e)\<rparr>]\<rparr>,
            res_json (Message ''User registered successfully'')))"
proof -
  have ne: "x \<noteq> []" "p \<noteq> []" using assms(2,4) regex_test_nonempty by auto
  have f: "(List.find (\<lambda>u. u_email u = toLowerCase x) (users s) = None)
            = (toLowerCase x \<notin> set (map u_email (users s)))"
    by (force simp add: find_None_iff)
  show ?thesis
    using assms ne f
    by (simp add: register_def validateEmail_JStr validatePassword_JStr Let_def)
qed

lemma subscribe_string:
  assumes "field b ''email'' = JStr x" and "regex_test x"
  shows "subscribeNewsletter e s b =
     (if toLowerCase x \<in> set (map n_email (newsletters s))
      then (s, res_status 400 (Error ''Email already subscribed''))
      else (s\<lparr>newsletters := newsletters s @
                 [\<lparr>n_email = toLowerCase x, n_subscribedAt = new_date e\<rparr>]\<rparr>,
            res_json (Message ''Successfully subscribed to our newsletter!'')))"
proof -
  have ne: "x \<noteq> []" using assms(2) regex_test_nonempty by auto
  have f: "(List.find (\<lambda>n. n_email n = toLowerCase x) (newsletters s) = None)
            = (toLowerCase x \<notin> set (map n_email (newsletters s)))"
    by (force simp add: find_None_iff)
  show ?thesis
    using assms ne f
    by (simp add: subscribeNewsletter_def validateEmail_JStr Let_def)
qed

lemma login_string:
  assumes "field b ''email'' = JStr x" and "regex_test x" and "truthy (field b ''password'')"
  shows "login e s b =
     (case List.find (\<lambda>u. u_email u = toLowerCase x) (users s) of
        None \<Rightarrow> res_status 401 (Error ''Invalid credentials'')
      | Some u \<Rightarrow>
          (case field b ''password'' of
             JStr p \<Rightarrow>
               if bcrypt_compare e p (u_password u)
               then res_json (LoginOk (jwt_sign e (u_id u)) (u_id u) (u_email u)
                                      ''Login successful'')
               else res_status 401 (Error ''Invalid credentials'')
           | _ \<Rightarrow> res_status 500 (Error ''Internal server error'')))"
proof -
  have ne: "x \<noteq> []" using assms(2) regex_test_nonempty by auto
  show ?thesis
    using assms ne
    by (simp add: login_def validateEmail_JStr Let_def split: option.splits jsval.splits)
qed

subsection \<open>What each handler leaves alone\<close>

lemma adminStats_state: "fst (adminStats e s h) = s"
  by (simp add: adminStats_def split: sum.splits)

lemma slice_last5: "slice_from (- 5) xs = drop (length xs - 5) xs"
  by (simp add: slice_from_def Let_def max_def nat_diff_distrib')

lemma register_others:
  "appointments (fst (register e s b)) = appointments s"
  "contacts (fst (register e s b)) = contacts s"
  by (simp_all add: register_def Let_def split: sum.splits jsval.splits)

lemma subscribeNewsletter_others:
  "appointments (fst (subscribeNewsletter e s b)) = appointments s"
  "contacts (fst (subscribeNewsletter e s b)) = contacts s"
  by (simp_all add: subscribeNewsletter_def Let_def split: sum.splits)

lemma bookAppointment_contacts: "contacts (fst (bookAppointment e s b)) = contacts s"
  by (simp add: bookAppointment_def Let_def split: sum.splits)

lemma sendContact_appointments: "appointments (fst (sendContact e s b)) = appointments s"
  by (simp add: sendContact_def Let_def split: sum.splits)

lemma register_push_or_same:
  "fst (register e s b) = s
   \<or> snd (register e s b) = res_json (Message ''User registered successfully'')"
  by (simp add: register_def Let_def split: sum.splits jsval.splits)

lemma subscribe_push_or_same:
  "fst (subscribeNewsletter e s b) = s
   \<or> snd (subscribeNewsletter e s b)
       = res_json (Message ''Successfully subscribed to our newsletter!'')"
  by (simp add: subscribeNewsletter_def Let_def split: sum.splits)

subsection \<open>Ids and timestamps along a run\<close>

lemma handle_appointment_stamps:
  "map (\<lambda>a. (a_id a, a_createdAt a)) (appointments (fst (handle e s r)))
     = map (\<lambda>a. (a_id a, a_createdAt a)) (appointments s)
       @ (if books (e, r) then [(date_now e, new_date e)] else [])"
proof (cases r)
  case (Appointment b)
  show ?thesis
  proof (cases "books (e, r)")
    case True
    then obtain x where "valid_appointment e b" "field b ''email'' = JStr x"
      using Appointment is_string_JStr by auto
    then show ?thesis
      using True Appointment by (simp add: bookAppointment_stored)
  next
    case False
    then show ?thesis
      using Appointment bookAppointment_unstored [of e b s] by simp
  qed
qed (simp_all add: register_others subscribeNewsletter_others sendContact_appointments
       adminStats_state)

lemma handle_contact_stamps:
  "map (\<lambda>c. (c_id c, c_createdAt c)) (contacts (fst (handle e s r)))
     = map (\<lambda>c. (c_id c, c_createdAt c)) (contacts s)
       @ (if writes (e, r) then [(date_now e, new_date e)] else [])"
proof (cases r)
  case (Contact b)
  show ?thesis
  proof (cases "writes (e, r)")
    case True
    then obtain n x m where "valid_contact e b" "field b ''name'' = JStr n"
        "field b ''email'' = JStr x" "field b ''message'' = JStr m"
      using Contact is_string_JStr by (metis writes.simps(1))
    then show ?thesis
      using True Contact by (simp add: sendContact_stored)
  next
    case False
    then show ?thesis
      using Contact sendContact_unstored [of e b s] by simp
  qed
qed (simp_all add: register_others subscribeNewsletter_others bookAppointment_contacts
       adminStats_state)

lemma run_appointment_stamps:
  "map (\<lambda>a. (a_id a, a_createdAt a)) (appointments (run s evs))
     = map (\<lambda>a. (a_id a, a_createdAt a)) (appointments s)
       @ map (\<lambda>ev. (date_now (fst ev), new_date (fst ev))) (filter books evs)"
proof (induction evs arbitrary: s)
  case Nil
  show ?case by simp
next
  case (Cons ev evs)
  obtain e r where ev: "ev = (e, r)" by (cases ev)
  show ?case
    using Cons.IH [of "fst (handle e s r)"] handle_appointment_stamps [of e s r] ev
    by simp
qed

lemma run_contact_stamps:
  "map (\<lambda>c. (c_id c, c_createdAt c)) (contacts (run s evs))
     = map (\<lambda>c. (c_id c, c_createdAt c)) (contacts s)
       @ map (\<lambda>ev. (date_now (fst ev), new_date (fst ev))) (filter writes evs)"
proof (induction evs arbitrary: s)
  case Nil
  show ?case by simp
next
  case (Cons ev evs)
  obtain e r where ev: "ev = (e, r)" by (cases ev)
  show ?case
    using Cons.IH [of "fst (handle e s r)"] handle_contact_stamps [of e s r] ev
    by simp
qed

subsection \<open>Lower-case emails are preserved\<close>

lemma register_lowercase:
  "emails_lowercase s \<Longrightarrow> emails_lowercase (fst (register e s b))"
  by (cases "field b ''email''"; cases "field b ''password''")
     (simp_all add: register_def emails_lowercase_def Let_def toLowerCase_idem
        split: sum.splits)

lemma bookAppointment_lowercase:
  "emails_lowercase s \<Longrightarrow> emails_lowercase (fst (bookAppointment e s b))"
  by (cases "field b ''email''")
     (simp_all add: bookAppointment_def emails_lowercase_def Let_def toLowerCase_idem
        split: sum.splits)

lemma sendContact_lowercase:
  "emails_lowercase s \<Longrightarrow> emails_lowercase (fst (sendContact e s b))"
  by (cases "field b ''email''")
     (simp_all add: sendContact_def emails_lowercase_def Let_def toLowerCase_idem
        split: sum.splits)

lemma subscribeNewsletter_lowercase:
  "emails_lowercase s \<Longrightarrow> emails_lowercase (fst (subscribeNewsletter e s b))"
  by (cases "field b ''email''")
     (simp_all add: subscribeNewsletter_def emails_lowercase_def Let_def toLowerCase_idem
        split: sum.splits)

lemma testEmail_lowercase: "toLowerCase testEmail = testEmail"
  unfolding testEmail_def by code_simp

lemma createTestUser_lowercase:
  "emails_lowercase s \<Longrightarrow> emails_lowercase (createTestUser e s)"
  by (simp add: createTestUser_def emails_lowercase_def testEmail_lowercase)

lemma handle_lowercase:
  "emails_lowercase s \<Longrightarrow> emails_lowercase (fst (handle e s r))"
  by (cases r)
     (simp_all add: register_lowercase bookAppointment_lowercase sendContact_lowercase
        subscribeNewsletter_lowercase adminStats_state)

lemma reachable_lowercase: "reachable s \<Longrightarrow> emails_lowercase s"
proof (induction rule: reachable.induct)
  case start
  show ?case by (simp add: emails_lowercase_def empty_state_def)
next
  case (seeded s e)
  then show ?case by (simp add: createTestUser_lowercase)
next
  case (handled s e r)
  then show ?case by (simp add: handle_lowercase)
qed

lemma handle_email_case:
  assumes "same_but_email_case b b'"
  shows "handle e s (Login b) = handle e s (Login b')"
    and "handle e s (Register b) = handle e s (Register b')"
    and "handle e s (Appointment b) = handle e s (Appointment b')"
    and "handle e s (Contact b) = handle e s (Contact b')"
    and "handle e s (Newsletter b) = handle e s (Newsletter b')"
proof -
  from assms obtain x y where xy: "field b ''email'' = JStr x" "field b' ''email'' = JStr y"
      "toLowerCase x = toLowerCase y"
    and rest: "\<And>k. k \<noteq> ''email'' \<Longrightarrow> field b k = field b' k"
    by (auto simp add: same_but_email_case_def)
  note f = lower_eq_facts [OF xy(3)]
  have p: "field b ''password'' = field b' ''password''" by (rule rest) simp
  show "handle e s (Login b) = handle e s (Login b')"
    using xy f p by (simp add: login_def validateEmail_JStr Let_def split: sum.splits)
  show "handle e s (Register b) = handle e s (Register b')"
    using xy f p by (simp add: register_def validateEmail_JStr Let_def split: sum.splits)
  have a: "field b ''firstName'' = field b' ''firstName''" "field b ''lastName'' = field b' ''lastName''"
    "field b ''phone'' = field b' ''phone''" "field b ''service'' = field b' ''service''"
    "field b ''date'' = field b' ''date''" "field b ''time'' = field b' ''time''"
    "field b ''message'' = field b' ''message''" "field b ''name'' = field b' ''name''"
    by (rule rest, simp)+
  show "handle e s (Appointment b) = handle e s (Appointment b')"
    using xy f a
    by (simp add: bookAppointment_def appointmentEmail_def validateEmail_JStr Let_def
          split: sum.splits)
  show "handle e s (Contact b) = handle e s (Contact b')"
    using xy f a by (simp add: sendContact_def validateEmail_JStr Let_def split: sum.splits)
  show "handle e s (Newsletter b) = handle e s (Newsletter b')"
    using xy f by (simp add: subscribeNewsletter_def validateEmail_JStr Let_def split: sum.splits)
qed

subsection \<open>The sample data\<close>

lemma regex_samples:
  "regex_test ''Ann@Example.com''" "regex_test ''ann@example.com''"
  "regex_test ''A@Example.com''" "regex_test ''a@example.com''"
  "regex_test ''bob@example.com''" "\<not> regex_test ''not-an-email''"
  "regex_test ''ANN@example.com''"
  by (simp_all add: regex_test_def email_char_def is_space_def)

lemma lower_samples:
  "toLowerCase ''Ann@Example.com'' = ''ann@example.com''"
  "toLowerCase ''ann@example.com'' = ''ann@example.com''"
  "toLowerCase ''A@Example.com'' = ''a@example.com''"
  "toLowerCase ''a@example.com'' = ''a@example.com''"
  "toLowerCase ''bob@example.com'' = ''bob@example.com''"
  "toLowerCase ''ANN@example.com'' = ''ann@example.com''"
  by code_simp+

lemma sample_tokens:
  "header_token (Some ''Bearer old'') = Some ''old''"
  "header_token (Some ''Bearer forged'') = Some ''forged''"
  "header_token (Some ''Bearer signed'') = Some ''signed''"
  by (simp_all add: header_token_def Let_def)

lemma sample_valid:
  "valid_appointment e booking_ann" "valid_appointment e booking_bob"
  "valid_appointment e booking_zero_message" "valid_contact e contact_ann"
  by (simp_all add: valid_appointment_def valid_contact_def booking_ann_def
        booking_bob_def booking_zero_message_def contact_ann_def field_def validateEmail_JStr
        regex_samples)

lemma sample_emails:
  "field booking_ann ''email'' = JStr ''Ann@Example.com''"
  "field booking_bob ''email'' = JStr ''bob@example.com''"
  "field booking_zero_message ''email'' = JStr ''Ann@Example.com''"
  "field contact_ann ''email'' = JStr ''Ann@Example.com''"
  "field signup_ann ''email'' = JStr ''Ann@Example.com''"
  "field signup_ann_lower ''email'' = JStr ''ann@example.com''"
  "field login_ann_number ''email'' = JStr ''Ann@Example.com''"
  "field login_ann_wrong ''email'' = JStr ''ANN@example.com''"
  "field news_ann ''email'' = JStr ''A@Example.com''"
  "field news_ann_lower ''email'' = JStr ''a@example.com''"
  by (simp_all add: booking_ann_def booking_bob_def booking_zero_message_def contact_ann_def
        signup_ann_def signup_ann_lower_def login_ann_number_def login_ann_wrong_def
        news_ann_def news_ann_lower_def field_def)

lemma sample_texts:
  "appointmentEmail e booking_ann = Inr [''Ann'', ''Lee'', ''yoga'', ''2024-01-02'', ''10:00'', ''555'']"
  "appointmentEmail e booking_bob
     = Inr [''Bob'', ''Ray'', ''massage'', ''2024-01-03'', ''11:00'', ''556'', ''hello'']"
  by (simp_all add: appointmentEmail_def booking_ann_def booking_bob_def field_def)

lemma register_ann: "register sample_env empty_state signup_ann
     = (ann_state, res_json (Message ''User registered successfully''))"
  using register_string [of signup_ann "''Ann@Example.com''" "''secret1''" sample_env empty_state]
  by (simp add: sample_emails regex_samples lower_samples signup_ann_def field_def
        empty_state_def ann_state_def sample_env_def sample_hash_def)

subsection \<open>Requests that pass the checks and are answered 500\<close>

lemma bookAppointment_no_string:
  assumes "valid_appointment e b" and "\<not> is_string (field b ''email'')"
  shows "bookAppointment e s b = (s, res_status 500 (Error ''Failed to book appointment''))"
proof -
  have "js_toLowerCase (field b ''email'') = Inl TypeError"
    using assms(2) by (cases "field b ''email''") (simp_all add: is_string_def)
  then show ?thesis
    using assms(1) by (simp add: valid_appointment_def bookAppointment_def Let_def)
qed

lemma sendContact_no_string:
  assumes "valid_contact e b"
      and "\<not> (is_string (field b ''name'') \<and> is_string (field b ''email'')
               \<and> is_string (field b ''message''))"
  shows "sendContact e s b = (s, res_status 500 (Error ''Failed to send message''))"
proof -
  have t: "js_trim v = Inr t \<Longrightarrow> is_string v" for v t
    by (cases v) (simp_all add: is_string_def)
  have l: "js_toLowerCase v = Inr t \<Longrightarrow> is_string v" for v t
    by (cases v) (simp_all add: is_string_def)
  show ?thesis
    using assms t [of "field b ''name''"] t [of "field b ''message''"] l [of "field b ''email''"]
    by (auto simp add: valid_contact_def sendContact_def Let_def split: sum.splits)
qed

lemma more_samples:
  "valid_appointment e booking_array_email" "\<not> is_string (field booking_array_email ''email'')"
  "valid_appointment e booking_object_name"
  "field booking_object_name ''email'' = JStr ''Ann@Example.com''"
  "appointmentEmail e booking_object_name = Inl TypeError"
  "valid_contact e contact_number_name" "\<not> is_string (field contact_number_name ''name'')"
  by (simp_all add: valid_appointment_def valid_contact_def booking_array_email_def
        booking_object_name_def contact_number_name_def field_def validateEmail_def
        regex_samples is_string_def appointmentEmail_def)

section \<open>Claims\<close>

subsection \<open>Token verification\<close>

text \<open>
  Claim C1, as amended. A request with no token is answered with 401 and the body
  \<open>Access token required\<close>: that is a request without an Authorization header, with a
  header that has no space, or with a header whose piece after the first space is empty.
  Otherwise the token is the piece between the first space and the next one (or the end);
  when its verification fails the answer is 403 with the body \<open>Invalid token\<close>, whatever
  the cause (malformed token, bad signature or expired token), and when it succeeds the
  request goes on with the decoded payload. The verification failures are
  indistinguishable from one another, and differ from the missing token.
\<close>

theorem authenticateToken_outcomes:
  "authenticateToken e None = Inl (res_status 401 (Error ''Access token required''))
   \<and> (CHR '' '' \<notin> set h \<longrightarrow>
        authenticateToken e (Some h) = Inl (res_status 401 (Error ''Access token required'')))
   \<and> (CHR '' '' \<notin> set a \<and> CHR '' '' \<notin> set t \<and> (r = [] \<or> (\<exists>r'. r = CHR '' '' # r')) \<longrightarrow>
        authenticateToken e (Some (a @ CHR '' '' # t @ r)) =
          (if t = [] then Inl (res_status 401 (Error ''Access token required''))
           else (case jwt_verify e t of
                   Inl err \<Rightarrow> Inl (res_status 403 (Error ''Invalid token''))
                 | Inr user \<Rightarrow> Inr user)))"
  by (simp add: authenticateToken_def header_token_None header_token_no_space
        header_token_second)

text \<open>No header, a header of one piece, an empty second piece, an expired, a forged and a
  malformed token, and the good token, in the sample environment.\<close>

theorem authenticateToken_outcomes_witness:
  "authenticateToken sample_env None = Inl (res_status 401 (Error ''Access token required''))
   \<and> authenticateToken sample_env (Some ''Bearer'')
       = Inl (res_status 401 (Error ''Access token required''))
   \<and> authenticateToken sample_env (Some ''Bearer  signed'')
       = Inl (res_status 401 (Error ''Access token required''))
   \<and> authenticateToken sample_env (Some ''Bearer old'')
       = Inl (res_status 403 (Error ''Invalid token''))
   \<and> authenticateToken sample_env (Some ''Bearer forged'')
       = Inl (res_status 403 (Error ''Invalid token''))
   \<and> authenticateToken sample_env (Some ''Bearer nonsense extra'')
       = Inl (res_status 403 (Error ''Invalid token''))
   \<and> authenticateToken sample_env (Some ''Bearer signed'') = Inr 1"
  using authenticateToken_outcomes [of sample_env "''Bearer''" "''Bearer''" "[]" "'' signed''"]
    authenticateToken_outcomes [of sample_env "''Bearer''" "''Bearer''" "''old''" "[]"]
    authenticateToken_outcomes [of sample_env "''Bearer''" "''Bearer''" "''forged''" "[]"]
    authenticateToken_outcomes [of sample_env "''Bearer''" "''Bearer''" "''nonsense''" "'' extra''"]
    authenticateToken_outcomes [of sample_env "''Bearer''" "''Bearer''" "''signed''" "[]"]
  by (simp add: sample_env_def sample_verify_def)

text \<open>Claim C1 as stated fails: the missing header and the expired token are answered
  with different status codes and different bodies.\<close>

theorem authenticateToken_not_uniform:
  "authenticateToken sample_env None = Inl (res_status 401 (Error ''Access token required''))
   \<and> authenticateToken sample_env (Some ''Bearer old'') = Inl (res_status 403 (Error ''Invalid token''))
   \<and> authenticateToken sample_env None \<noteq> authenticateToken sample_env (Some ''Bearer old'')"
  by (simp add: authenticateToken_def header_token_def Let_def sample_env_def sample_verify_def
        res_status_def)

subsection \<open>Notification and the response\<close>

text \<open>
  Claim C2, as amended. An appointment request that passes the checks, has a string as
  email and fields from which the mail text can be built, is stored as the record the
  handler builds from it; the response is the success message when no mail transport is
  configured or \<^verbatim>\<open>sendMail\<close> resolves, and 500 \<open>Failed to book appointment\<close> when
  \<^verbatim>\<open>sendMail\<close> rejects, the record staying stored. The same holds of a contact request
  that passes the checks with strings as name, email and message, with 500
  \<open>Failed to send message\<close>. The other requests that pass the checks are answered 500 as
  well: with the record stored when the mail text cannot be built, with nothing stored
  when the email (for a contact request also the name or the message) is not a string.
\<close>

theorem response_follows_notification:
  "(valid_appointment e b \<and> field b ''email'' = JStr x \<and> appointmentEmail e b = Inr t \<longrightarrow>
      bookAppointment e s b =
        (s\<lparr>appointments := appointments s @
             [\<lparr>a_id = date_now e, a_firstName = field b ''firstName'',
               a_lastName = field b ''lastName'', a_email = toLowerCase x,
               a_phone = field b ''phone'', a_service = field b ''service'',
               a_date = field b ''date'', a_time = field b ''time'',
               a_message = (if truthy (field b ''message'') then field b ''message''
                            else JStr []),
               a_createdAt = new_date e\<rparr>]\<rparr>,
         if transporter e = Some Rejected
         then res_status 500 (Error ''Failed to book appointment'')
         else res_json (Message
                ''Appointment booked successfully! Check your email for confirmation.'')))
   \<and> (valid_appointment e b \<and> field b ''email'' = JStr x \<and> appointmentEmail e b = Inl err \<longrightarrow>
      bookAppointment e s b =
        (s\<lparr>appointments := appointments s @
             [\<lparr>a_id = date_now e, a_firstName = field b ''firstName'',
               a_lastName = field b ''lastName'', a_email = toLowerCase x,
               a_phone = field b ''phone'', a_service = field b ''service'',
               a_date = field b ''date'', a_time = field b ''time'',
               a_message = (if truthy (field b ''message'') then field b ''message''
                            else JStr []),
               a_createdAt = new_date e\<rparr>]\<rparr>,
         res_status 500 (Error ''Failed to book appointment'')))
   \<and> (valid_appointment e b \<and> \<not> is_string (field b ''email'') \<longrightarrow>
      bookAppointment e s b = (s, res_status 500 (Error ''Failed to book appointment'')))
   \<and> (valid_contact e' b' \<and> field b' ''name'' = JStr n \<and> field b' ''email'' = JStr x'
       \<and> field b' ''message'' = JStr m \<longrightarrow>
      sendContact e' s' b' =
        (s'\<lparr>contacts := contacts s' @
             [\<lparr>c_id = date_now e', c_name = trim n, c_email = toLowerCase x',
               c_message = trim m, c_createdAt = new_date e'\<rparr>]\<rparr>,
         if transporter e' = Some Rejected
         then res_status 500 (Error ''Failed to send message'')
         else res_json (Message ''Message sent successfully! We'll get back to you soon.'')))
   \<and> (valid_contact e' b' \<and> \<not> (is_string (field b' ''name'') \<and> is_string (field b' ''email'')
                                 \<and> is_string (field b' ''message'')) \<longrightarrow>
      sendContact e' s' b' = (s', res_status 500 (Error ''Failed to send message'')))"
  by (simp add: bookAppointment_stored sendContact_stored bookAppointment_no_string
        sendContact_no_string)

text \<open>A booking whose mail is rejected, one whose first name has no text, one whose email
  is an array; a contact message whose mail is delivered, and one whose name is a
  number.\<close>

theorem response_follows_notification_witness:
  "valid_appointment (sample_env\<lparr>transporter := Some Rejected\<rparr>) booking_ann
   \<and> field booking_ann ''email'' = JStr ''Ann@Example.com''
   \<and> appointmentEmail (sample_env\<lparr>transporter := Some Rejected\<rparr>) booking_ann
       = Inr [''Ann'', ''Lee'', ''yoga'', ''2024-01-02'', ''10:00'', ''555'']
   \<and> bookAppointment (sample_env\<lparr>transporter := Some Rejected\<rparr>) empty_state booking_ann
       = (empty_state\<lparr>appointments := [appt 1700000000000]\<rparr>,
          res_status 500 (Error ''Failed to book appointment''))
   \<and> valid_appointment sample_env booking_object_name
   \<and> appointmentEmail sample_env booking_object_name = Inl TypeError
   \<and> snd (bookAppointment sample_env empty_state booking_object_name)
       = res_status 500 (Error ''Failed to book appointment'')
   \<and> length (appointments (fst (bookAppointment sample_env empty_state booking_object_name))) = 1
   \<and> valid_appointment sample_env booking_array_email
   \<and> \<not> is_string (field booking_array_email ''email'')
   \<and> bookAppointment sample_env empty_state booking_array_email
       = (empty_state, res_status 500 (Error ''Failed to book appointment''))
   \<and> valid_contact (sample_env\<lparr>transporter := Some Resolved\<rparr>) contact_ann
   \<and> sendContact (sample_env\<lparr>transporter := Some Resolved\<rparr>) empty_state contact_ann
       = (empty_state\<lparr>contacts :=
            [\<lparr>c_id = 1700000000000, c_name = ''Ann'', c_email = ''ann@example.com'',
              c_message = ''hi there'', c_createdAt = 1700000000000\<rparr>]\<rparr>,
          res_json (Message ''Message sent successfully! We'll get back to you soon.''))
   \<and> valid_contact sample_env contact_number_name
   \<and> \<not> is_string (field contact_number_name ''name'')
   \<and> sendContact sample_env empty_state contact_number_name
       = (empty_state, res_status 500 (Error ''Failed to send message''))"
proof -
  have f: "field contact_ann ''name'' = JStr '' Ann ''"
    "field contact_ann ''message'' = JStr ''hi there''"
    "field booking_ann ''firstName'' = JStr ''Ann''" "field booking_ann ''lastName'' = JStr ''Lee''"
    "field booking_ann ''phone'' = JStr ''555''" "field booking_ann ''service'' = JStr ''yoga''"
    "field booking_ann ''date'' = JStr ''2024-01-02''" "field booking_ann ''time'' = JStr ''10:00''"
    "field booking_ann ''message'' = JUndefined"
    by (simp_all add: contact_ann_def booking_ann_def field_def)
  have t: "trim '' Ann '' = ''Ann''" "trim ''hi there'' = ''hi there''"
    by (simp_all add: trim_def is_space_def)
  have e: "appointments empty_state = []" by (simp add: empty_state_def)
  have 1: "bookAppointment (sample_env\<lparr>transporter := Some Rejected\<rparr>) empty_state booking_ann
       = (empty_state\<lparr>appointments := [appt 1700000000000]\<rparr>,
          res_status 500 (Error ''Failed to book appointment''))"
    using response_follows_notification
      [of "sample_env\<lparr>transporter := Some Rejected\<rparr>" booking_ann "''Ann@Example.com''"
          "[''Ann'', ''Lee'', ''yoga'', ''2024-01-02'', ''10:00'', ''555'']" empty_state]
      sample_valid sample_emails sample_texts f lower_samples
    by (simp add: appt_def sample_env_def empty_state_def)
  have 2: "snd (bookAppointment sample_env empty_state booking_object_name)
       = res_status 500 (Error ''Failed to book appointment'')
     \<and> length (appointments (fst (bookAppointment sample_env empty_state booking_object_name))) = 1"
    using response_follows_notification
      [of sample_env booking_object_name "''Ann@Example.com''" _ empty_state TypeError]
      more_samples e
    by simp
  have 3: "bookAppointment sample_env empty_state booking_array_email
       = (empty_state, res_status 500 (Error ''Failed to book appointment''))"
    using response_follows_notification [of sample_env booking_array_email _ _ empty_state]
      more_samples
    by simp
  have 4: "sendContact (sample_env\<lparr>transporter := Some Resolved\<rparr>) empty_state contact_ann
       = (empty_state\<lparr>contacts :=
            [\<lparr>c_id = 1700000000000, c_name = ''Ann'', c_email = ''ann@example.com'',
              c_message = ''hi there'', c_createdAt = 1700000000000\<rparr>]\<rparr>,
          res_json (Message ''Message sent successfully! We'll get back to you soon.''))"
    using response_follows_notification
      [of _ _ _ _ _ _ "sample_env\<lparr>transporter := Some Resolved\<rparr>" contact_ann "'' Ann ''"
          "''Ann@Example.com''" "''hi there''" empty_state]
      sample_valid sample_emails f t lower_samples
    by (simp add: sample_env_def empty_state_def)
  have 5: "sendContact sample_env empty_state contact_number_name
       = (empty_state, res_status 500 (Error ''Failed to send message''))"
    using response_follows_notification
      [of _ _ _ _ _ _ sample_env contact_number_name _ _ _ empty_state]
      more_samples
    by simp
  show ?thesis
    using 1 2 3 4 5 sample_valid sample_emails sample_texts more_samples by simp
qed

text \<open>Claim C2 as stated fails: the same valid booking, and the same valid contact
  message, are answered with success without a transport and with 500 when the transport
  rejects the mail.\<close>

theorem sendMail_failure_answers_500:
  "valid_appointment sample_env booking_ann
   \<and> snd (bookAppointment sample_env empty_state booking_ann)
       = res_json (Message ''Appointment booked successfully! Check your email for confirmation.'')
   \<and> snd (bookAppointment (sample_env\<lparr>transporter := Some Rejected\<rparr>) empty_state booking_ann)
       = res_status 500 (Error ''Failed to book appointment'')
   \<and> snd (bookAppointment (sample_env\<lparr>transporter := Some Rejected\<rparr>) empty_state booking_ann)
       \<noteq> snd (bookAppointment sample_env empty_state booking_ann)
   \<and> valid_contact sample_env contact_ann
   \<and> snd (sendContact sample_env empty_state contact_ann)
       = res_json (Message ''Message sent successfully! We'll get back to you soon.'')
   \<and> snd (sendContact (sample_env\<lparr>transporter := Some Rejected\<rparr>) empty_state contact_ann)
       = res_status 500 (Error ''Failed to send message'')
   \<and> snd (sendContact (sample_env\<lparr>transporter := Some Rejected\<rparr>) empty_state contact_ann)
       \<noteq> snd (sendContact sample_env empty_state contact_ann)"
  by (simp add: valid_appointment_def valid_contact_def booking_ann_def contact_ann_def
        field_def validateEmail_def regex_samples bookAppointment_def appointmentEmail_def
        sendContact_def notify_def Let_def sample_env_def res_status_def res_json_def)

subsection \<open>Identifiers and timestamps\<close>

text \<open>
  Claim C3, as amended. Every record appended to the appointment or the contact store
  carries as id the \<^verbatim>\<open>Date.now()\<close> reading of its request and as creation timestamp
  the \<^verbatim>\<open>new Date()\<close> reading; a newsletter subscription carries its lower-cased email
  and the \<^verbatim>\<open>new Date()\<close> reading, and no id. Along a run from the empty stores the
  ids of the appointment store are, in insertion order, the \<^verbatim>\<open>Date.now()\<close> readings of
  the requests that stored a booking, and likewise for the contact store. So the ids of a
  store are pairwise distinct exactly when those readings are, and increase exactly when
  those readings do.
\<close>

theorem ids_follow_clock:
  "(valid_appointment e b \<and> is_string (field b ''email'') \<longrightarrow>
      (\<exists>a. appointments (fst (bookAppointment e s b)) = appointments s @ [a]
           \<and> a_id a = date_now e \<and> a_createdAt a = new_date e))
   \<and> (valid_contact e' b' \<and> is_string (field b' ''name'') \<and> is_string (field b' ''email'')
       \<and> is_string (field b' ''message'') \<longrightarrow>
      (\<exists>c. contacts (fst (sendContact e' s' b')) = contacts s' @ [c]
           \<and> c_id c = date_now e' \<and> c_createdAt c = new_date e'))
   \<and> (field b'' ''email'' = JStr x \<and> regex_test x
        \<and> toLowerCase x \<notin> set (map n_email (newsletters s'')) \<longrightarrow>
      newsletters (fst (subscribeNewsletter e'' s'' b''))
        = newsletters s'' @ [\<lparr>n_email = toLowerCase x, n_subscribedAt = new_date e''\<rparr>])
   \<and> map a_id (appointments (run empty_state evs))
        = map (\<lambda>ev. date_now (fst ev)) (filter books evs)
   \<and> map a_createdAt (appointments (run empty_state evs))
        = map (\<lambda>ev. new_date (fst ev)) (filter books evs)
   \<and> map c_id (contacts (run empty_state evs))
        = map (\<lambda>ev. date_now (fst ev)) (filter writes evs)
   \<and> map c_createdAt (contacts (run empty_state evs))
        = map (\<lambda>ev. new_date (fst ev)) (filter writes evs)
   \<and> distinct (map a_id (appointments (run empty_state evs)))
        = distinct (map (\<lambda>ev. date_now (fst ev)) (filter books evs))
   \<and> sorted_wrt (<) (map a_id (appointments (run empty_state evs)))
        = sorted_wrt (<) (map (\<lambda>ev. date_now (fst ev)) (filter books evs))
   \<and> distinct (map c_id (contacts (run empty_state evs)))
        = distinct (map (\<lambda>ev. date_now (fst ev)) (filter writes evs))
   \<and> sorted_wrt (<) (map c_id (contacts (run empty_state evs)))
        = sorted_wrt (<) (map (\<lambda>ev. date_now (fst ev)) (filter writes evs))"
proof -
  have a: "map (\<lambda>a. (a_id a, a_createdAt a)) (appointments (run empty_state evs))
             = map (\<lambda>ev. (date_now (fst ev), new_date (fst ev))) (filter books evs)"
    using run_appointment_stamps [of empty_state evs] by (simp add: empty_state_def)
  have c: "map (\<lambda>c. (c_id c, c_createdAt c)) (contacts (run empty_state evs))
             = map (\<lambda>ev. (date_now (fst ev), new_date (fst ev))) (filter writes evs)"
    using run_contact_stamps [of empty_state evs] by (simp add: empty_state_def)
  have ai: "map a_id (appointments (run empty_state evs))
              = map (\<lambda>ev. date_now (fst ev)) (filter books evs)"
    using arg_cong [OF a, of "map fst"] by (simp add: comp_def)
  have at: "map a_createdAt (appointments (run empty_state evs))
              = map (\<lambda>ev. new_date (fst ev)) (filter books evs)"
    using arg_cong [OF a, of "map snd"] by (simp add: comp_def)
  have ci: "map c_id (contacts (run empty_state evs))
              = map (\<lambda>ev. date_now (fst ev)) (filter writes evs)"
    using arg_cong [OF c, of "map fst"] by (simp add: comp_def)
  have ct: "map c_createdAt (contacts (run empty_state evs))
              = map (\<lambda>ev. new_date (fst ev)) (filter writes evs)"
    using arg_cong [OF c, of "map snd"] by (simp add: comp_def)
  have 1: "valid_appointment e b \<and> is_string (field b ''email'') \<longrightarrow>
      (\<exists>a. appointments (fst (bookAppointment e s b)) = appointments s @ [a]
           \<and> a_id a = date_now e \<and> a_createdAt a = new_date e)"
    using is_string_JStr [of "field b ''email''"] by (auto simp add: bookAppointment_stored)
  have 2: "valid_contact e' b' \<and> is_string (field b' ''name'') \<and> is_string (field b' ''email'')
       \<and> is_string (field b' ''message'') \<longrightarrow>
      (\<exists>c. contacts (fst (sendContact e' s' b')) = contacts s' @ [c]
           \<and> c_id c = date_now e' \<and> c_createdAt c = new_date e')"
    using is_string_JStr [of "field b' ''name''"] is_string_JStr [of "field b' ''email''"]
      is_string_JStr [of "field b' ''message''"]
    by (auto simp add: sendContact_stored)
  have 3: "field b'' ''email'' = JStr x \<and> regex_test x
        \<and> toLowerCase x \<notin> set (map n_email (newsletters s'')) \<longrightarrow>
      newsletters (fst (subscribeNewsletter e'' s'' b''))
        = newsletters s'' @ [\<lparr>n_email = toLowerCase x, n_subscribedAt = new_date e''\<rparr>]"
    by (simp add: subscribe_string)
  show ?thesis
    using 1 2 3 by (simp only: ai at ci ct simp_thms)
qed

text \<open>Two stored bookings one millisecond apart with a rejected one between them, a
  contact message and a subscription.\<close>

theorem ids_follow_clock_witness:
  "valid_appointment later_env booking_ann
   \<and> is_string (field booking_ann ''email'')
   \<and> map a_id (appointments (fst (bookAppointment later_env empty_state booking_ann)))
       = [1700000000001]
   \<and> map a_createdAt (appointments (fst (bookAppointment later_env empty_state booking_ann)))
       = [1700000000002]
   \<and> valid_contact later_env contact_ann
   \<and> map c_id (contacts (fst (sendContact later_env empty_state contact_ann)))
       = [1700000000001]
   \<and> newsletters (fst (subscribeNewsletter later_env empty_state news_ann))
       = [\<lparr>n_email = ''a@example.com'', n_subscribedAt = 1700000000002\<rparr>]
   \<and> map a_id (appointments (run empty_state
        [(sample_env, Appointment booking_ann), (sample_env, Appointment booking_bad_email),
         (later_env, Appointment booking_bob)]))
       = [1700000000000, 1700000000001]
   \<and> map a_createdAt (appointments (run empty_state
        [(sample_env, Appointment booking_ann), (sample_env, Appointment booking_bad_email),
         (later_env, Appointment booking_bob)]))
       = [1700000000000, 1700000000002]
   \<and> distinct (map a_id (appointments (run empty_state
        [(sample_env, Appointment booking_ann), (sample_env, Appointment booking_bad_email),
         (later_env, Appointment booking_bob)])))"
proof -
  let ?evs = "[(sample_env, Appointment booking_ann),
               (sample_env, Appointment booking_bad_email),
               (later_env, Appointment booking_bob)]"
  have e: "appointments empty_state = []" "contacts empty_state = []"
    "newsletters empty_state = []"
    by (simp_all add: empty_state_def)
  have d: "date_now later_env = 1700000000001" "new_date later_env = 1700000000002"
    "date_now sample_env = 1700000000000" "new_date sample_env = 1700000000000"
    by (simp_all add: later_env_def sample_env_def)
  have s: "is_string (field booking_ann ''email'')" "is_string (field booking_bob ''email'')"
    "is_string (field contact_ann ''email'')" "is_string (field contact_ann ''name'')"
    "is_string (field contact_ann ''message'')"
    by (simp_all add: is_string_def booking_ann_def booking_bob_def contact_ann_def field_def)
  have n: "\<not> valid_appointment sample_env booking_bad_email"
    by (simp add: valid_appointment_def booking_bad_email_def field_def validateEmail_JStr
          regex_samples)
  have f: "filter books ?evs
             = [(sample_env, Appointment booking_ann), (later_env, Appointment booking_bob)]"
    using sample_valid s n by simp
  show ?thesis
    using ids_follow_clock [of later_env booking_ann empty_state later_env contact_ann empty_state
        news_ann "''A@Example.com''" empty_state later_env ?evs]
      sample_valid sample_emails regex_samples(3) lower_samples(3) e d s f
    by auto
qed

text \<open>Claim C3 as stated fails: two different bookings handled within the same
  millisecond are stored with the same id.\<close>

theorem same_millisecond_same_id:
  "map a_firstName (appointments (run empty_state
      [(sample_env, Appointment booking_ann), (sample_env, Appointment booking_bob)]))
     = [JStr ''Ann'', JStr ''Bob'']
   \<and> map a_id (appointments (run empty_state
      [(sample_env, Appointment booking_ann), (sample_env, Appointment booking_bob)]))
     = [1700000000000, 1700000000000]
   \<and> \<not> distinct (map a_id (appointments (run empty_state
      [(sample_env, Appointment booking_ann), (sample_env, Appointment booking_bob)])))"
  by (simp add: bookAppointment_def appointmentEmail_def booking_ann_def booking_bob_def
        field_def validateEmail_def regex_samples lower_samples notify_def Let_def
        sample_env_def empty_state_def)

subsection \<open>Validation failures\<close>



subsection \<open>Registration\<close>

text \<open>
  Claim C5. From a state whose credential store does not hold the lower-cased form of a
  well-formed email, registering it with a password of at least 6 characters succeeds;
  registering next any email with the same lower-cased form (the same one, or one that
  differs in letter case only), again with a valid password, is answered with 400
  \<open>User already exists\<close> and leaves the stores as the first call left them.
\<close>

theorem register_twice:
  assumes "field b1 ''email'' = JStr a1" and "field b1 ''password'' = JStr p1"
      and "regex_test a1" and "6 \<le> length p1"
      and "toLowerCase a1 \<notin> set (map u_email (users s))"
      and "field b2 ''email'' = JStr a2" and "field b2 ''password'' = JStr p2"
      and "toLowerCase a2 = toLowerCase a1" and "6 \<le> length p2"
  shows "snd (register e1 s b1) = res_json (Message ''User registered successfully'')
       \<and> register e2 (fst (register e1 s b1)) b2
           = (fst (register e1 s b1), res_status 400 (Error ''User already exists''))"
proof -
  have r2: "regex_test a2"
    using assms(3,8) lower_eq_facts(2) [of a2 a1] by simp
  have first: "register e1 s b1 =
      (s\<lparr>users := users s @
            [\<lparr>u_id = date_now e1, u_email = toLowerCase a1, u_password = bcrypt_hash e1 p1,
              u_createdAt = Some (new_date e1)\<rparr>]\<rparr>,
       res_json (Message ''User registered successfully''))"
    using register_string [OF assms(1,3,2,4), of e1 s] assms(5) by simp
  have "toLowerCase a2 \<in> set (map u_email (users (fst (register e1 s b1))))"
    using assms(8) by (simp add: first)
  then have "register e2 (fst (register e1 s b1)) b2
           = (fst (register e1 s b1), res_status 400 (Error ''User already exists''))"
    using register_string [OF assms(6) r2 assms(7,9), of e2 "fst (register e1 s b1)"] by simp
  then show ?thesis using first by simp
qed

text \<open>\<open>Ann@Example.com\<close>, then \<open>ann@example.com\<close>.\<close>

theorem register_twice_witness:
  "snd (register sample_env empty_state signup_ann)
     = res_json (Message ''User registered successfully'')
   \<and> register later_env (fst (register sample_env empty_state signup_ann)) signup_ann_lower
     = (fst (register sample_env empty_state signup_ann),
        res_status 400 (Error ''User already exists''))"
proof -
  have 2: "field signup_ann ''password'' = JStr ''secret1''"
    and 4: "field signup_ann_lower ''password'' = JStr ''secret1''"
    by (simp_all add: signup_ann_def signup_ann_lower_def field_def)
  have 5: "toLowerCase ''Ann@Example.com'' \<notin> set (map u_email (users empty_state))"
    by (simp add: empty_state_def)
  have 6: "toLowerCase ''ann@example.com'' = toLowerCase ''Ann@Example.com''"
    by (simp add: lower_samples)
  have 7: "6 \<le> length ''secret1''" by simp
  show ?thesis
    using register_twice [OF sample_emails(5) 2 regex_samples(1) 7 5 sample_emails(6) 4 6 7,
        of sample_env later_env]
    by simp
qed

subsection \<open>Login\<close>

text \<open>With a string as password the two failures of a login get the same response: an
  email that is not registered, and a registered email with a password that the hash
  comparison rejects, are both answered 401 \<open>Invalid credentials\<close>.\<close>

lemma login_failures_same_for_strings:
  assumes "field b1 ''email'' = JStr a1" and "regex_test a1" and "truthy (field b1 ''password'')"
      and "List.find (\<lambda>u. u_email u = toLowerCase a1) (users s1) = None"
      and "field b2 ''email'' = JStr a2" and "regex_test a2"
      and "field b2 ''password'' = JStr p2" and "p2 \<noteq> []"
      and "List.find (\<lambda>u. u_email u = toLowerCase a2) (users s2) = Some u"
      and "\<not> bcrypt_compare e2 p2 (u_password u)"
  shows "login e1 s1 b1 = res_status 401 (Error ''Invalid credentials'')
       \<and> login e2 s2 b2 = login e1 s1 b1"
  using assms by (simp add: login_string)

text \<open>
  Claim C6 fails on the code. The two answers \<open>Invalid credentials\<close> are the same, but
  a password that is truthy and not a string reaches \<^verbatim>\<open>bcrypt.compare\<close> only when the
  email is registered; the comparison then rejects and the handler answers 500. The
  password 123456, a number, is answered 401 for an email that is not registered and 500
  for a registered one, while a wrong string password for the registered email is
  answered 401.
\<close>

theorem login_number_password_tells:
  "register sample_env empty_state signup_ann
     = (ann_state, res_json (Message ''User registered successfully''))
   \<and> login sample_env empty_state login_ann_number
     = res_status 401 (Error ''Invalid credentials'')
   \<and> login sample_env ann_state login_ann_number
     = res_status 500 (Error ''Internal server error'')
   \<and> login sample_env ann_state login_ann_wrong
     = res_status 401 (Error ''Invalid credentials'')
   \<and> login sample_env ann_state login_ann_number \<noteq> login sample_env empty_state login_ann_number"
proof -
  have p: "truthy (field login_ann_number ''password'')"
    "field login_ann_number ''password'' = JNum 123456"
    "truthy (field login_ann_wrong ''password'')"
    "field login_ann_wrong ''password'' = JStr ''wrong-pass''"
    by (simp_all add: login_ann_number_def login_ann_wrong_def field_def)
  have 1: "login sample_env empty_state login_ann_number
     = res_status 401 (Error ''Invalid credentials'')"
    using login_string [OF sample_emails(7) regex_samples(1) p(1), of sample_env empty_state]
    by (simp add: empty_state_def)
  have 2: "login sample_env ann_state login_ann_number
     = res_status 500 (Error ''Internal server error'')"
    using login_string [OF sample_emails(7) regex_samples(1) p(1), of sample_env ann_state]
    by (simp add: ann_state_def lower_samples p(2))
  have 3: "login sample_env ann_state login_ann_wrong
     = res_status 401 (Error ''Invalid credentials'')"
    using login_string [OF sample_emails(8) regex_samples(7) p(3), of sample_env ann_state]
    by (simp add: ann_state_def lower_samples p(4) sample_env_def sample_compare_def
          sample_hash_def)
  show ?thesis using 1 2 3 register_ann by (simp add: res_status_def)
qed

text \<open>The two status codes that the same request gets.\<close>

theorem login_number_password_tells_witness:
  "login sample_env ann_state login_ann_number \<noteq> login sample_env empty_state login_ann_number
   \<and> status (login sample_env ann_state login_ann_number) = 500
   \<and> status (login sample_env empty_state login_ann_number) = 401"
  using login_number_password_tells by (simp add: res_status_def)

subsection \<open>Lower-case emails\<close>

text \<open>
  Claim C7. In every reachable state the email field of every stored user, appointment,
  contact message and newsletter subscription is its own lower-cased form. Registration
  looks for the lower-cased email of the request among the stored users and stores that
  lower-cased email; login looks the user up under the lower-cased email of the request;
  a stored appointment and a stored contact message carry the lower-cased email of their
  request; the newsletter subscription looks for the lower-cased email among the
  subscriptions and stores it. Two requests that differ in the letter case of the email
  only are handled alike, with the same new stores and the same response.
\<close>

theorem stored_emails_lowercase:
  "(reachable s \<longrightarrow> emails_lowercase s)
   \<and> (field br ''email'' = JStr xr \<and> regex_test xr \<and> field br ''password'' = JStr p
       \<and> 6 \<le> length p \<longrightarrow>
      register e t br =
        (if toLowerCase xr \<in> set (map u_email (users t))
         then (t, res_status 400 (Error ''User already exists''))
         else (t\<lparr>users := users t @
                    [\<lparr>u_id = date_now e, u_email = toLowerCase xr,
                      u_password = bcrypt_hash e p, u_createdAt = Some (new_date e)\<rparr>]\<rparr>,
               res_json (Message ''User registered successfully''))))
   \<and> (field bl ''email'' = JStr xl \<and> regex_test xl \<and> field bl ''password'' = JStr q
       \<and> q \<noteq> [] \<longrightarrow>
      login e t bl =
        (case List.find (\<lambda>u. u_email u = toLowerCase xl) (users t) of
           None \<Rightarrow> res_status 401 (Error ''Invalid credentials'')
         | Some u \<Rightarrow>
             if bcrypt_compare e q (u_password u)
             then res_json (LoginOk (jwt_sign e (u_id u)) (u_id u) (u_email u)
                                    ''Login successful'')
             else res_status 401 (Error ''Invalid credentials'')))
   \<and> (valid_appointment e ba \<and> field ba ''email'' = JStr xa \<longrightarrow>
      (\<exists>a. appointments (fst (bookAppointment e t ba)) = appointments t @ [a]
           \<and> a_email a = toLowerCase xa))
   \<and> (valid_contact e bc \<and> field bc ''name'' = JStr n \<and> field bc ''email'' = JStr xc
       \<and> field bc ''message'' = JStr m \<longrightarrow>
      (\<exists>c. contacts (fst (sendContact e t bc)) = contacts t @ [c]
           \<and> c_email c = toLowerCase xc))
   \<and> (field bn ''email'' = JStr xn \<and> regex_test xn \<longrightarrow>
      subscribeNewsletter e t bn =
        (if toLowerCase xn \<in> set (map n_email (newsletters t))
         then (t, res_status 400 (Error ''Email already subscribed''))
         else (t\<lparr>newsletters := newsletters t @
                    [\<lparr>n_email = toLowerCase xn, n_subscribedAt = new_date e\<rparr>]\<rparr>,
               res_json (Message ''Successfully subscribed to our newsletter!''))))
   \<and> (same_but_email_case b b' \<longrightarrow>
        handle e t (Login b) = handle e t (Login b')
      \<and> handle e t (Register b) = handle e t (Register b')
      \<and> handle e t (Appointment b) = handle e t (Appointment b')
      \<and> handle e t (Contact b) = handle e t (Contact b')
      \<and> handle e t (Newsletter b) = handle e t (Newsletter b'))"
proof (intro conjI impI)
  assume "reachable s"
  then show "emails_lowercase s" by (rule reachable_lowercase)
next
  assume "field br ''email'' = JStr xr \<and> regex_test xr \<and> field br ''password'' = JStr p
       \<and> 6 \<le> length p"
  then show "register e t br =
        (if toLowerCase xr \<in> set (map u_email (users t))
         then (t, res_status 400 (Error ''User already exists''))
         else (t\<lparr>users := users t @
                    [\<lparr>u_id = date_now e, u_email = toLowerCase xr,
                      u_password = bcrypt_hash e p, u_createdAt = Some (new_date e)\<rparr>]\<rparr>,
               res_json (Message ''User registered successfully'')))"
    using register_string [of br xr p e t] by simp
next
  assume "field bl ''email'' = JStr xl \<and> regex_test xl \<and> field bl ''password'' = JStr q
       \<and> q \<noteq> []"
  then show "login e t bl =
        (case List.find (\<lambda>u. u_email u = toLowerCase xl) (users t) of
           None \<Rightarrow> res_status 401 (Error ''Invalid credentials'')
         | Some u \<Rightarrow>
             if bcrypt_compare e q (u_password u)
             then res_json (LoginOk (jwt_sign e (u_id u)) (u_id u) (u_email u)
                                    ''Login successful'')
             else res_status 401 (Error ''Invalid credentials''))"
    using login_string [of bl xl e t] by (simp split: option.splits)
next
  assume "valid_appointment e ba \<and> field ba ''email'' = JStr xa"
  then show "\<exists>a. appointments (fst (bookAppointment e t ba)) = appointments t @ [a]
           \<and> a_email a = toLowerCase xa"
    by (simp add: bookAppointment_stored)
next
  assume "valid_contact e bc \<and> field bc ''name'' = JStr n \<and> field bc ''email'' = JStr xc
       \<and> field bc ''message'' = JStr m"
  then show "\<exists>c. contacts (fst (sendContact e t bc)) = contacts t @ [c]
           \<and> c_email c = toLowerCase xc"
    by (simp add: sendContact_stored)
next
  assume "field bn ''email'' = JStr xn \<and> regex_test xn"
  then show "subscribeNewsletter e t bn =
        (if toLowerCase xn \<in> set (map n_email (newsletters t))
         then (t, res_status 400 (Error ''Email already subscribed''))
         else (t\<lparr>newsletters := newsletters t @
                    [\<lparr>n_email = toLowerCase xn, n_subscribedAt = new_date e\<rparr>]\<rparr>,
               res_json (Message ''Successfully subscribed to our newsletter!'')))"
    using subscribe_string [of bn xn e t] by simp
qed (simp_all only: handle_email_case)

text \<open>The state after the test user is created and \<open>A@Example.com\<close> has subscribed; a
  second registration and two logins of \<open>Ann@Example.com\<close>; a booking, a contact message
  and a subscription on the empty stores.\<close>

theorem stored_emails_lowercase_witness:
  "reachable (fst (handle sample_env (createTestUser sample_env empty_state) (Newsletter news_ann)))
   \<and> emails_lowercase
       (fst (handle sample_env (createTestUser sample_env empty_state) (Newsletter news_ann)))
   \<and> map u_email (users
       (fst (handle sample_env (createTestUser sample_env empty_state) (Newsletter news_ann))))
      = [''test@wellnesshub.com'']
   \<and> register sample_env empty_state signup_ann
       = (ann_state, res_json (Message ''User registered successfully''))
   \<and> register sample_env ann_state signup_ann
       = (ann_state, res_status 400 (Error ''User already exists''))
   \<and> login sample_env ann_state login_ann_wrong
       = res_status 401 (Error ''Invalid credentials'')
   \<and> login sample_env ann_state signup_ann
       = res_json (LoginOk ''signed'' 1700000000000 ''ann@example.com'' ''Login successful'')
   \<and> map a_email (appointments (fst (bookAppointment sample_env empty_state booking_ann)))
       = [''ann@example.com'']
   \<and> map c_email (contacts (fst (sendContact sample_env empty_state contact_ann)))
       = [''ann@example.com'']
   \<and> map n_email (newsletters (fst (subscribeNewsletter sample_env empty_state news_ann)))
       = [''a@example.com'']
   \<and> same_but_email_case news_ann news_ann_lower
   \<and> handle sample_env empty_state (Newsletter news_ann)
       = handle sample_env empty_state (Newsletter news_ann_lower)"
proof -
  let ?s = "fst (handle sample_env (createTestUser sample_env empty_state) (Newsletter news_ann))"
  note T = stored_emails_lowercase
  have r: "reachable ?s"
    by (intro reachable.handled reachable.seeded reachable.start)
  have u: "map u_email (users ?s) = [''test@wellnesshub.com'']"
    using subscribe_string [OF sample_emails(9) regex_samples(3)]
    by (simp add: createTestUser_def testEmail_def empty_state_def)
  have c: "same_but_email_case news_ann news_ann_lower"
    by (simp add: same_but_email_case_def news_ann_def news_ann_lower_def field_def
          lower_samples)
  have f: "field signup_ann ''password'' = JStr ''secret1''"
    "field login_ann_wrong ''password'' = JStr ''wrong-pass''"
    "field contact_ann ''name'' = JStr '' Ann ''"
    "field contact_ann ''message'' = JStr ''hi there''"
    by (simp_all add: signup_ann_def login_ann_wrong_def contact_ann_def field_def)
  have e: "users empty_state = []" "appointments empty_state = []" "contacts empty_state = []"
    "newsletters empty_state = []"
    by (simp_all add: empty_state_def)
  have a: "users ann_state = [\<lparr>u_id = 1700000000000, u_email = ''ann@example.com'',
                 u_password = ''$2a$10$secret1'', u_createdAt = Some 1700000000000\<rparr>]"
    by (simp add: ann_state_def)
  have k: "bcrypt_compare sample_env ''secret1'' ''$2a$10$secret1''"
    "\<not> bcrypt_compare sample_env ''wrong-pass'' ''$2a$10$secret1''"
    "jwt_sign sample_env 1700000000000 = ''signed''"
    by (simp_all add: sample_env_def sample_compare_def sample_hash_def sample_sign_def)
  note T2 = T [THEN conjunct2, THEN conjunct1]
  note T3 = T [THEN conjunct2, THEN conjunct2, THEN conjunct1]
  note T4 = T [THEN conjunct2, THEN conjunct2, THEN conjunct2, THEN conjunct1]
  note T5 = T [THEN conjunct2, THEN conjunct2, THEN conjunct2, THEN conjunct2, THEN conjunct1]
  note T6 = T [THEN conjunct2, THEN conjunct2, THEN conjunct2, THEN conjunct2, THEN conjunct2,
               THEN conjunct1]
  note T7 = T [THEN conjunct2, THEN conjunct2, THEN conjunct2, THEN conjunct2, THEN conjunct2,
               THEN conjunct2]
  have 1: "register sample_env ann_state signup_ann
       = (ann_state, res_status 400 (Error ''User already exists''))"
    using T2 [of signup_ann "''Ann@Example.com''" "''secret1''" sample_env ann_state]
      sample_emails regex_samples lower_samples f a
    by simp
  have 2: "login sample_env ann_state login_ann_wrong
       = res_status 401 (Error ''Invalid credentials'')"
    using T3 [of login_ann_wrong "''ANN@example.com''" "''wrong-pass''" sample_env ann_state]
      sample_emails regex_samples lower_samples f a k
    by simp
  have 3: "login sample_env ann_state signup_ann
       = res_json (LoginOk ''signed'' 1700000000000 ''ann@example.com'' ''Login successful'')"
    using T3 [of signup_ann "''Ann@Example.com''" "''secret1''" sample_env ann_state]
      sample_emails regex_samples lower_samples f a k
    by simp
  have 4: "map a_email (appointments (fst (bookAppointment sample_env empty_state booking_ann)))
       = [''ann@example.com'']"
    using T4 [of sample_env booking_ann "''Ann@Example.com''" empty_state]
      sample_valid sample_emails lower_samples e
    by auto
  have 5: "map c_email (contacts (fst (sendContact sample_env empty_state contact_ann)))
       = [''ann@example.com'']"
    using T5 [of sample_env contact_ann "'' Ann ''" "''Ann@Example.com''" "''hi there''"
                empty_state]
      sample_valid sample_emails lower_samples e f
    by auto
  have 6: "map n_email (newsletters (fst (subscribeNewsletter sample_env empty_state news_ann)))
       = [''a@example.com'']"
    using T6 [of news_ann "''A@Example.com''" sample_env empty_state]
      sample_emails regex_samples lower_samples e
    by simp
  have 7: "handle sample_env empty_state (Newsletter news_ann)
       = handle sample_env empty_state (Newsletter news_ann_lower)"
    using T7 [of news_ann news_ann_lower sample_env empty_state] c
    by simp
  show ?thesis
    using T [THEN conjunct1, of ?s] r u c register_ann 1 2 3 4 5 6 7 by simp
qed

subsection \<open>The administrative summary\<close>

text \<open>
  Claim C8. The summary writes no store. For an authorised request it returns the numbers
  of users, appointments, contact messages and subscriptions, and of the appointments and
  of the contact messages the last five in insertion order (all of them when there are
  fewer than five).
\<close>

theorem adminStats_summary:
  "fst (adminStats e s h) = s
   \<and> (authenticateToken e h = Inr uid \<longrightarrow>
        (\<exists>ra rc. snd (adminStats e s h)
             = res_json (Stats (length (users s)) (length (appointments s))
                               (length (contacts s)) (length (newsletters s)) ra rc)
          \<and> length ra = min 5 (length (appointments s))
          \<and> (\<exists>older. appointments s = older @ ra)
          \<and> length rc = min 5 (length (contacts s))
          \<and> (\<exists>older. contacts s = older @ rc)))"
proof (intro conjI impI)
  show "fst (adminStats e s h) = s"
    by (rule adminStats_state)
next
  assume ok: "authenticateToken e h = Inr uid"
  let ?ra = "drop (length (appointments s) - 5) (appointments s)"
  let ?rc = "drop (length (contacts s) - 5) (contacts s)"
  have r: "snd (adminStats e s h)
             = res_json (Stats (length (users s)) (length (appointments s))
                               (length (contacts s)) (length (newsletters s)) ?ra ?rc)"
    using ok by (simp add: adminStats_def slice_last5)
  have la: "length ?ra = min 5 (length (appointments s))"
    and lc: "length ?rc = min 5 (length (contacts s))"
    by simp_all
  have pa: "appointments s = take (length (appointments s) - 5) (appointments s) @ ?ra"
    and pc: "contacts s = take (length (contacts s) - 5) (contacts s) @ ?rc"
    by simp_all
  from r la lc pa pc
  show "\<exists>ra rc. snd (adminStats e s h)
             = res_json (Stats (length (users s)) (length (appointments s))
                               (length (contacts s)) (length (newsletters s)) ra rc)
          \<and> length ra = min 5 (length (appointments s))
          \<and> (\<exists>older. appointments s = older @ ra)
          \<and> length rc = min 5 (length (contacts s))
          \<and> (\<exists>older. contacts s = older @ rc)"
    by blast
qed

text \<open>Seven appointments: the summary counts seven and lists the third to the seventh.\<close>

theorem adminStats_summary_witness:
  "authenticateToken sample_env (Some ''Bearer signed'') = Inr 1
   \<and> fst (adminStats sample_env busy_state (Some ''Bearer signed'')) = busy_state
   \<and> snd (adminStats sample_env busy_state (Some ''Bearer signed''))
       = res_json (Stats 0 7 0 0 (map appt [3, 4, 5, 6, 7]) [])"
proof -
  have a: "authenticateToken sample_env (Some ''Bearer signed'') = Inr 1"
    by (simp add: authenticateToken_def sample_tokens sample_env_def sample_verify_def)
  have b: "snd (adminStats sample_env busy_state (Some ''Bearer signed''))
       = res_json (Stats 0 7 0 0 (map appt [3, 4, 5, 6, 7]) [])"
    by (simp add: adminStats_def a busy_state_def slice_from_def res_json_def)
  show ?thesis
    using adminStats_summary [of sample_env busy_state "Some ''Bearer signed''" 1] a b by simp
qed

subsection \<open>Conflicts\<close>

text \<open>
  Claim C9. When registration answers 400 \<open>User already exists\<close>, or the newsletter
  subscription answers 400 \<open>Email already subscribed\<close>, the stores after the request
  are the stores before it.
\<close>

theorem conflict_leaves_state:
  "(snd (register e s b) = res_status 400 (Error ''User already exists'')
      \<longrightarrow> fst (register e s b) = s)
   \<and> (snd (subscribeNewsletter e' s' b') = res_status 400 (Error ''Email already subscribed'')
      \<longrightarrow> fst (subscribeNewsletter e' s' b') = s')"
  using register_push_or_same [of e s b] subscribe_push_or_same [of e' s' b']
  by (auto simp add: res_status_def res_json_def)

text \<open>A second registration and a second subscription of the same address.\<close>

theorem conflict_leaves_state_witness:
  "snd (register sample_env (fst (register sample_env empty_state signup_ann)) signup_ann_lower)
     = res_status 400 (Error ''User already exists'')
   \<and> fst (register sample_env (fst (register sample_env empty_state signup_ann)) signup_ann_lower)
     = fst (register sample_env empty_state signup_ann)
   \<and> snd (subscribeNewsletter sample_env
            (fst (subscribeNewsletter sample_env empty_state news_ann)) news_ann_lower)
     = res_status 400 (Error ''Email already subscribed'')
   \<and> fst (subscribeNewsletter sample_env
            (fst (subscribeNewsletter sample_env empty_state news_ann)) news_ann_lower)
     = fst (subscribeNewsletter sample_env empty_state news_ann)"
proof -
  let ?s = "fst (register sample_env empty_state signup_ann)"
  let ?t = "fst (subscribeNewsletter sample_env empty_state news_ann)"
  have p: "field signup_ann_lower ''password'' = JStr ''secret1''"
    by (simp add: signup_ann_lower_def field_def)
  have a: "snd (register sample_env ?s signup_ann_lower)
             = res_status 400 (Error ''User already exists'')"
    using register_string [OF sample_emails(6) regex_samples(2) p, of sample_env ?s]
    by (simp add: register_ann ann_state_def lower_samples)
  have n: "newsletters ?t = [\<lparr>n_email = ''a@example.com'', n_subscribedAt = 1700000000000\<rparr>]"
    using subscribe_string [OF sample_emails(9) regex_samples(3), of sample_env empty_state]
    by (simp add: empty_state_def lower_samples sample_env_def)
  have b: "snd (subscribeNewsletter sample_env ?t news_ann_lower)
             = res_status 400 (Error ''Email already subscribed'')"
    using subscribe_string [OF sample_emails(10) regex_samples(4), of sample_env ?t]
    by (simp add: n lower_samples)
  show ?thesis
    using conflict_leaves_state [of sample_env ?s signup_ann_lower sample_env ?t news_ann_lower] a b
    by simp
qed

subsection \<open>The message of an appointment\<close>



end
